theory Spec2Isabelle
  imports Main "HOL-Library.Word" "HOL-Library.Char_ord" "HOL-Library.List_Lexorder"
begin

unbundle bit_operations_syntax

section \<open>Python values\<close>

text \<open>
  The adapters read parsed JSON. A Python \<open>str\<close> is a \<open>string\<close>: a list of code
  points below 256 (Latin-1), which covers the ASCII feeds; \<open>None\<close> is \<open>JNull\<close>;
  a \<open>dict\<close> is the list of its items in insertion order (a lookup reads a repeated
  key as \<open>json.loads\<close> does: the later pair wins). JSON numbers are the integers (the feeds carry ids and
  epoch milliseconds); a Python \<open>bool\<close> is kept apart from \<open>int\<close>, and the places
  where Python treats it as an \<open>int\<close> say so.
\<close>

datatype json =
    JNull
  | JBool bool
  | JNum int
  | JStr string
  | JArr "json list"
  | JObj "(string \<times> json) list"

type_synonym dict = "(string \<times> json) list"

datatype exn =
    AttributeError
  | TypeError
  | ValueError
  | OverflowError
  | InterfaceError
  | HTTPStatusError
  | JSONDecodeError
  | RequestError

text \<open>Sequencing of computations that may raise: the first exception wins.\<close>

definition bind_res :: "exn + 'a \<Rightarrow> ('a \<Rightarrow> exn + 'b) \<Rightarrow> exn + 'b" where
  "bind_res m f = (case m of Inl e \<Rightarrow> Inl e | Inr v \<Rightarrow> f v)"

text \<open>\<open>d.get(k)\<close>: the value, or \<open>None\<close> for a missing key.\<close>

definition py_get :: "dict \<Rightarrow> string \<Rightarrow> json" where
  "py_get d k = (case map_of (rev d) k of None \<Rightarrow> JNull | Some v \<Rightarrow> v)"

text \<open>\<open>d.get(k, default)\<close>.\<close>

definition py_get_default :: "dict \<Rightarrow> string \<Rightarrow> json \<Rightarrow> json" where
  "py_get_default d k dflt = (case map_of (rev d) k of None \<Rightarrow> dflt | Some v \<Rightarrow> v)"

text \<open>Truth value testing, and \<open>a or b\<close> (the first truthy operand, else the last).\<close>

fun truthy :: "json \<Rightarrow> bool" where
  "truthy JNull = False"
| "truthy (JBool b) = b"
| "truthy (JNum n) = (n \<noteq> 0)"
| "truthy (JStr s) = (s \<noteq> [])"
| "truthy (JArr xs) = (xs \<noteq> [])"
| "truthy (JObj kvs) = (kvs \<noteq> [])"

definition py_or :: "json \<Rightarrow> json \<Rightarrow> json" where
  "py_or a b = (if truthy a then a else b)"

text \<open>
  \<open>(v or "")\<close> followed by a \<open>str\<close> method: a falsy \<open>v\<close> gives the empty string, a
  string is itself, and any other truthy value has no such method.
\<close>

definition str_or_empty :: "json \<Rightarrow> exn + string" where
  "str_or_empty v =
     (if \<not> truthy v then Inr []
      else case v of JStr s \<Rightarrow> Inr s | _ \<Rightarrow> Inl AttributeError)"

text \<open>\<open>(v or {})\<close> followed by \<open>.get\<close>.\<close>

definition dict_or_empty :: "json \<Rightarrow> exn + dict" where
  "dict_or_empty v =
     (if \<not> truthy v then Inr []
      else case v of JObj d \<Rightarrow> Inr d | _ \<Rightarrow> Inl AttributeError)"

subsection \<open>String methods\<close>

text \<open>The code points below 256 for which \<open>str.isspace\<close> holds.\<close>

definition py_isspace :: "char \<Rightarrow> bool" where
  "py_isspace c \<longleftrightarrow>
     c \<in> set [CHR 0x09, CHR 0x0A, CHR 0x0B, CHR 0x0C, CHR 0x0D, CHR 0x1C, CHR 0x1D,
               CHR 0x1E, CHR 0x1F, CHR 0x20, CHR 0x85, CHR 0xA0]"

definition py_strip :: "string \<Rightarrow> string" where
  "py_strip s = rev (dropWhile py_isspace (rev (dropWhile py_isspace s)))"

text \<open>\<open>s.split()\<close>: the maximal runs of non-whitespace.\<close>

fun split_ws :: "string \<Rightarrow> string \<Rightarrow> string list" where
  "split_ws cur [] = (if cur = [] then [] else [rev cur])"
| "split_ws cur (c # cs) =
     (if py_isspace c then (if cur = [] then [] else [rev cur]) @ split_ws [] cs
      else split_ws (c # cur) cs)"

definition py_split :: "string \<Rightarrow> string list" where
  "py_split s = split_ws [] s"

fun py_join :: "string \<Rightarrow> string list \<Rightarrow> string" where
  "py_join sep [] = []"
| "py_join sep [x] = x"
| "py_join sep (x # y # zs) = x @ sep @ py_join sep (y # zs)"

text \<open>\<open>s.split(sep)\<close> for a one-character separator: empty pieces are kept.\<close>

fun split_on :: "(char \<Rightarrow> bool) \<Rightarrow> string \<Rightarrow> string \<Rightarrow> string list" where
  "split_on p cur [] = [rev cur]"
| "split_on p cur (c # cs) =
     (if p c then rev cur # split_on p [] cs else split_on p (c # cur) cs)"

text \<open>\<open>s.lower()\<close> on code points below 256.\<close>

definition py_lower_char :: "char \<Rightarrow> char" where
  "py_lower_char c =
     (let n = (of_char c :: nat)
      in if (65 \<le> n \<and> n \<le> 90) \<or> (192 \<le> n \<and> n \<le> 222 \<and> n \<noteq> 215)
         then char_of (n + 32) else c)"

definition py_lower :: "string \<Rightarrow> string" where
  "py_lower s = map py_lower_char s"

text \<open>\<open>needle in s\<close> for strings.\<close>

fun py_in :: "string \<Rightarrow> string \<Rightarrow> bool" where
  "py_in needle [] = (needle = [])"
| "py_in needle (c # cs) = (take (length needle) (c # cs) = needle \<or> py_in needle cs)"

text \<open>\<open>s.replace("Z", "+00:00")\<close>.\<close>

definition replace_Z :: "string \<Rightarrow> string" where
  "replace_Z s = concat (map (\<lambda>c. if c = CHR ''Z'' then ''+00:00'' else [c]) s)"

text \<open>Decimal text of an integer, as \<open>str(n)\<close> prints it.\<close>

fun dec_nat :: "nat \<Rightarrow> string" where
  "dec_nat n =
     (if n < 10 then [''0123456789'' ! n]
      else dec_nat (n div 10) @ [''0123456789'' ! (n mod 10)])"

declare dec_nat.simps [simp del]

definition dec_int :: "int \<Rightarrow> string" where
  "dec_int i = (if i < 0 then CHR ''-'' # dec_nat (nat (- i)) else dec_nat (nat i))"

text \<open>\<open>s.encode("utf-8")\<close> on code points below 256.\<close>

definition utf8 :: "string \<Rightarrow> nat list" where
  "utf8 s =
     concat (map (\<lambda>c. let n = (of_char c :: nat)
                       in if n < 128 then [n] else [192 + n div 64, 128 + n mod 64]) s)"

section \<open>hashlib.md5\<close>

text \<open>
  MD5 as RFC 1321 gives it, on 32-bit words: the message is padded with \<open>0x80\<close>, zeros
  up to 56 modulo 64 and the bit length in 8 little-endian bytes; each block of 16
  little-endian words goes through 64 steps.
\<close>

type_synonym u32 = "32 word"

definition md5_s :: "nat list" where
  "md5_s = [7, 12, 17, 22, 7, 12, 17, 22, 7, 12, 17, 22, 7, 12, 17, 22,
            5, 9, 14, 20, 5, 9, 14, 20, 5, 9, 14, 20, 5, 9, 14, 20,
            4, 11, 16, 23, 4, 11, 16, 23, 4, 11, 16, 23, 4, 11, 16, 23,
            6, 10, 15, 21, 6, 10, 15, 21, 6, 10, 15, 21, 6, 10, 15, 21]"

definition md5_K :: "u32 list" where
  "md5_K =
    [0xd76aa478, 0xe8c7b756, 0x242070db, 0xc1bdceee, 0xf57c0faf, 0x4787c62a, 0xa8304613,
     0xfd469501, 0x698098d8, 0x8b44f7af, 0xffff5bb1, 0x895cd7be, 0x6b901122, 0xfd987193,
     0xa679438e, 0x49b40821, 0xf61e2562, 0xc040b340, 0x265e5a51, 0xe9b6c7aa, 0xd62f105d,
     0x02441453, 0xd8a1e681, 0xe7d3fbc8, 0x21e1cde6, 0xc33707d6, 0xf4d50d87, 0x455a14ed,
     0xa9e3e905, 0xfcefa3f8, 0x676f02d9, 0x8d2a4c8a, 0xfffa3942, 0x8771f681, 0x6d9d6122,
     0xfde5380c, 0xa4beea44, 0x4bdecfa9, 0xf6bb4b60, 0xbebfbc70, 0x289b7ec6, 0xeaa127fa,
     0xd4ef3085, 0x04881d05, 0xd9d4d039, 0xe6db99e5, 0x1fa27cf8, 0xc4ac5665, 0xf4292244,
     0x432aff97, 0xab9423a7, 0xfc93a039, 0x655b59c3, 0x8f0ccc92, 0xffeff47d, 0x85845dd1,
     0x6fa87e4f, 0xfe2ce6e0, 0xa3014314, 0x4e0811a1, 0xf7537e82, 0xbd3af235, 0x2ad7d2bb,
     0xeb86d391]"

definition le_bytes :: "nat \<Rightarrow> 'a::len word \<Rightarrow> nat list" where
  "le_bytes k w = map (\<lambda>i. unat (drop_bit (8 * i) w AND 255)) [0..<k]"

definition md5_pad :: "nat list \<Rightarrow> nat list" where
  "md5_pad bs = bs @ [128] @ replicate ((55 + 64 - length bs mod 64) mod 64) 0
                   @ le_bytes 8 (word_of_nat (8 * length bs) :: 64 word)"

fun le_words :: "nat list \<Rightarrow> u32 list" where
  "le_words (a # b # c # d # rest) =
     (word_of_nat a OR push_bit 8 (word_of_nat b) OR push_bit 16 (word_of_nat c)
        OR push_bit 24 (word_of_nat d)) # le_words rest"
| "le_words _ = []"

fun chunks :: "nat \<Rightarrow> 'a list \<Rightarrow> 'a list list" where
  "chunks 0 xs = []"
| "chunks (Suc n) xs = take 16 xs # chunks n (drop 16 xs)"

definition md5_step ::
  "u32 list \<Rightarrow> u32 \<times> u32 \<times> u32 \<times> u32 \<Rightarrow> nat \<Rightarrow> u32 \<times> u32 \<times> u32 \<times> u32" where
  "md5_step M st i =
     (case st of (A, B, C, D) \<Rightarrow>
        let (F, g) =
              (if i < 16 then ((B AND C) OR (NOT B AND D), i)
               else if i < 32 then ((D AND B) OR (NOT D AND C), (5 * i + 1) mod 16)
               else if i < 48 then (B XOR C XOR D, (3 * i + 5) mod 16)
               else (C XOR (B OR NOT D), (7 * i) mod 16));
            F' = F + A + md5_K ! i + M ! g
        in (D, B + word_rotl (md5_s ! i) F', B, C))"

definition md5_chunk ::
  "u32 \<times> u32 \<times> u32 \<times> u32 \<Rightarrow> u32 list \<Rightarrow> u32 \<times> u32 \<times> u32 \<times> u32" where
  "md5_chunk h M =
     (case (h, foldl (md5_step M) h [0..<64]) of
        ((a0, b0, c0, d0), (A, B, C, D)) \<Rightarrow> (a0 + A, b0 + B, c0 + C, d0 + D))"

definition hex_byte :: "nat \<Rightarrow> string" where
  "hex_byte n = [''0123456789abcdef'' ! (n div 16 mod 16), ''0123456789abcdef'' ! (n mod 16)]"

definition md5_hexdigest :: "nat list \<Rightarrow> string" where
  "md5_hexdigest bs =
     (let ws = le_words (md5_pad bs);
          (a, b, c, d) = foldl md5_chunk (0x67452301, 0xefcdab89, 0x98badcfe, 0x10325476)
                           (chunks (length ws div 16) ws)
      in concat (map (\<lambda>w. concat (map hex_byte (le_bytes 4 w))) [a, b, c, d]))"

section \<open>Library calls taken as parameters\<close>

text \<open>
  The adapters call into the standard library for dates and URLs, and into the
  \<open>sqlite3\<close> binding; what these return depends on the interpreter version and on
  floating point, so the model takes them as parameters:
  \<^item> \<open>fromisoformat_isoformat s\<close> is \<open>datetime.fromisoformat(s).isoformat()\<close>, or \<open>None\<close>
    where \<open>fromisoformat\<close> raises;
  \<^item> \<open>fromtimestamp_ms_isoformat ts\<close> is
    \<open>datetime.fromtimestamp(ts/1000.0, tz=timezone.utc).isoformat()\<close>, or \<open>None\<close> where
    \<open>fromtimestamp\<close> raises (a year outside 1..9999);
  \<^item> \<open>urlsplit u\<close> gives the scheme, netloc and path of \<open>urllib.parse.urlsplit(u)\<close>, or
    \<open>None\<close> where it raises \<open>ValueError\<close>;
  \<^item> \<open>urlunsplit scheme netloc path\<close> is \<open>urlunsplit((scheme, netloc, path, "", ""))\<close>;
  \<^item> \<open>bind_error_caught\<close> says whether binding an unsupported Python type raises a
    subclass of \<open>sqlite3.DatabaseError\<close> (\<open>ProgrammingError\<close>, newer interpreters) or
    \<open>sqlite3.InterfaceError\<close>, which the adapters' \<open>except\<close> clause does not catch.
\<close>

record pylib =
  fromisoformat_isoformat :: "string \<Rightarrow> string option"
  fromtimestamp_ms_isoformat :: "int \<Rightarrow> string option"
  urlsplit :: "string \<Rightarrow> (string \<times> string \<times> string) option"
  urlunsplit :: "string \<Rightarrow> string \<Rightarrow> string \<Rightarrow> string"
  bind_error_caught :: bool

section \<open>The jobs table (core.py, DDL)\<close>

text \<open>
  One row of \<open>jobs\<close>. The \<open>NOT NULL\<close> columns are strings, the nullable ones
  (\<open>location\<close>, \<open>posted_at\<close>) are optional. The table is the list of its rows in
  rowid order; \<open>canonical_key\<close> is \<open>UNIQUE\<close>.
\<close>

record job_row =
  row_id :: nat
  board_token :: string
  org_name :: string
  title :: string
  description :: string
  location :: "string option"
  post_url :: string
  posted_at :: "string option"
  first_seen_at :: string
  last_seen_at :: string
  canonical_key :: string


definition find_key :: "string \<Rightarrow> job_row list \<Rightarrow> job_row option" where
  "find_key k rows = find (\<lambda>r. canonical_key r = k) rows"

text \<open>The ten values bound to the \<open>INSERT\<close>, after conversion to column text.\<close>

record insert_values =
  v_board_token :: "string option"
  v_org_name :: "string option"
  v_title :: "string option"
  v_description :: "string option"
  v_location :: "string option"
  v_post_url :: "string option"
  v_posted_at :: "string option"
  v_first_seen_at :: "string option"
  v_last_seen_at :: "string option"
  v_canonical_key :: "string option"

datatype db_error = IntegrityError

text \<open>
  Binding a Python value to a parameter of a \<open>TEXT\<close> column: \<open>None\<close> is \<open>NULL\<close>, a
  string is itself, an integer (and a \<open>bool\<close>, which is an \<open>int\<close>) is stored as its
  decimal text, an integer outside 64 bits raises \<open>OverflowError\<close>, and a list or a
  dict is an unsupported type.
\<close>

definition sql_bind :: "json \<Rightarrow> exn + string option" where
  "sql_bind v =
     (case v of
        JNull \<Rightarrow> Inr None
      | JStr s \<Rightarrow> Inr (Some s)
      | JBool b \<Rightarrow> Inr (Some (if b then ''1'' else ''0''))
      | JNum n \<Rightarrow>
          (if - (2 ^ 63) \<le> n \<and> n < 2 ^ 63 then Inr (Some (dec_int n)) else Inl OverflowError)
      | JArr _ \<Rightarrow> Inl InterfaceError
      | JObj _ \<Rightarrow> Inl InterfaceError)"

definition next_rowid :: "job_row list \<Rightarrow> nat" where
  "next_rowid rows = Suc (foldr max (map row_id rows) 0)"

text \<open>
  The statement every adapter executes:
  \<^verbatim>\<open>
  INSERT INTO jobs (board_token, org_name, title, description, location,
                    post_url, posted_at, first_seen_at, last_seen_at, canonical_key)
  VALUES (?, ?, ?, ?, ?, ?, ?, ?, ?, ?)
  ON CONFLICT(canonical_key) DO UPDATE SET
    last_seen_at=excluded.last_seen_at,
    title=excluded.title,
    description=excluded.description,
    location=excluded.location,
    posted_at=COALESCE(excluded.posted_at, jobs.posted_at)
  \<close>
  A \<open>NULL\<close> for a \<open>NOT NULL\<close> column fails the statement. Otherwise the row whose
  \<open>canonical_key\<close> equals the new one is updated in the five columns named; where
  there is none, a row is appended under the next rowid.
\<close>

definition do_update :: "job_row \<Rightarrow> string \<Rightarrow> string \<Rightarrow> string \<Rightarrow> string option
    \<Rightarrow> string option \<Rightarrow> job_row" where
  "do_update r seen ti de lo po =
     r\<lparr>last_seen_at := seen, title := ti, description := de, location := lo,
       posted_at := (case po of Some p \<Rightarrow> Some p | None \<Rightarrow> posted_at r)\<rparr>"

definition sql_upsert :: "insert_values \<Rightarrow> job_row list \<Rightarrow> db_error + job_row list" where
  "sql_upsert v rows =
     (case (v_board_token v, v_org_name v, v_title v, v_description v, v_post_url v,
            v_first_seen_at v, v_last_seen_at v, v_canonical_key v) of
        (Some bt, Some org, Some ti, Some de, Some url, Some fs, Some ls, Some k) \<Rightarrow>
          if list_ex (\<lambda>r. canonical_key r = k) rows
          then Inr (map (\<lambda>r. if canonical_key r = k
                              then do_update r ls ti de (v_location v) (v_posted_at v)
                              else r) rows)
          else Inr (rows @
                 [\<lparr>row_id = next_rowid rows, board_token = bt, org_name = org, title = ti,
                   description = de, location = v_location v, post_url = url,
                   posted_at = v_posted_at v, first_seen_at = fs, last_seen_at = ls,
                   canonical_key = k\<rparr>])
      | _ \<Rightarrow> Inl IntegrityError)"

text \<open>
  How a call of an adapter's \<open>upsert_job\<close> ends: it returned before the statement
  (\<open>Skipped\<close>), the statement ran (\<open>Executed\<close>), the statement failed with a
  \<open>sqlite3.DatabaseError\<close> that was caught and printed (\<open>Warned\<close>), or an exception left
  the function (\<open>Raised\<close>). In every case but the second the table is as it was.
\<close>

datatype outcome = Skipped | Executed | Warned | Raised exn

definition execute_upsert ::
  "pylib \<Rightarrow> (exn + insert_values option) \<Rightarrow> job_row list \<Rightarrow> job_row list \<times> outcome" where
  "execute_upsert lib vals rows =
     (case vals of
        Inl InterfaceError \<Rightarrow>
          (rows, if bind_error_caught lib then Warned else Raised InterfaceError)
      | Inl e \<Rightarrow> (rows, Raised e)
      | Inr None \<Rightarrow> (rows, Skipped)
      | Inr (Some v) \<Rightarrow>
          (case sql_upsert v rows of
             Inl _ \<Rightarrow> (rows, Warned)
           | Inr rows' \<Rightarrow> (rows', Executed)))"

text \<open>The fingerprint: \<open>hashlib.md5(url.encode("utf-8")).hexdigest()\<close>.\<close>

definition fingerprint :: "string \<Rightarrow> string" where
  "fingerprint url = md5_hexdigest (utf8 url)"

section \<open>The BoardAPI adapter (greenhouse.py)\<close>

text \<open>
  \<open>_parse_iso\<close> of core.py followed by \<open>.isoformat()\<close>: a falsy argument gives \<open>None\<close>;
  the bare \<open>except\<close> turns every failure (a value without \<open>replace\<close>, a string that
  does not parse) into \<open>None\<close>.
\<close>

definition parse_iso :: "pylib \<Rightarrow> json \<Rightarrow> string option" where
  "parse_iso lib s =
     (if \<not> truthy s then None
      else case s of JStr t \<Rightarrow> fromisoformat_isoformat lib (replace_Z t) | _ \<Rightarrow> None)"

text \<open>The source timestamp of the BoardAPI adapter: \<open>j.get("updated_at") or j.get("created_at")\<close>.\<close>

definition gh_timestamp :: "dict \<Rightarrow> json" where
  "gh_timestamp j = py_or (py_get j ''updated_at'') (py_get j ''created_at'')"

text \<open>
  \<open>upsert_job\<close> of greenhouse.py up to the statement: \<open>Inr None\<close> is the early return,
  \<open>Inl\<close> an exception, \<open>Inr (Some v)\<close> the values bound. \<open>now\<close> is
  \<open>datetime.now(timezone.utc).isoformat()\<close>.
\<close>

definition gh_values ::
  "pylib \<Rightarrow> string \<Rightarrow> string \<Rightarrow> string \<Rightarrow> dict \<Rightarrow> exn + insert_values option" where
  "gh_values lib now token org j =
     bind_res (str_or_empty (py_get j ''absolute_url'')) (\<lambda>u.
       let url = py_strip u in
       if url = [] then Inr None
       else
         bind_res (str_or_empty (py_get j ''title'')) (\<lambda>t.
         bind_res (dict_or_empty (py_get j ''location'')) (\<lambda>l.
         bind_res (str_or_empty (py_get l ''name'')) (\<lambda>n.
         bind_res (str_or_empty (py_get j ''content'')) (\<lambda>c.
           let ti = py_join '' '' (py_split t);
               loc = py_strip n;
               desc = py_strip c;
               posted = parse_iso lib (gh_timestamp j)
           in Inr (Some \<lparr>v_board_token = Some token, v_org_name = Some org,
                  v_title = Some ti, v_description = Some desc,
                  v_location = (if loc = [] then None else Some loc),
                  v_post_url = Some url, v_posted_at = posted,
                  v_first_seen_at = Some now, v_last_seen_at = Some now,
                  v_canonical_key = Some (fingerprint url)\<rparr>))))))"

definition gh_upsert_job ::
  "pylib \<Rightarrow> string \<Rightarrow> string \<Rightarrow> string \<Rightarrow> dict \<Rightarrow> job_row list \<Rightarrow> job_row list \<times> outcome" where
  "gh_upsert_job lib now token org j rows = execute_upsert lib (gh_values lib now token org j) rows"

section \<open>The PostingsAPI adapter (lever.py)\<close>

text \<open>\<open>repr\<close> of a string: the quote is \<open>"\<close> only where the string holds \<open>'\<close> and no \<open>"\<close>.\<close>

definition repr_char :: "char \<Rightarrow> char \<Rightarrow> string" where
  "repr_char q c =
     (let n = (of_char c :: nat)
      in if c = q \<or> c = CHR 0x5C then [CHR 0x5C, c]
         else if c = CHR 0x09 then [CHR 0x5C, CHR ''t'']
         else if c = CHR 0x0A then [CHR 0x5C, CHR ''n'']
         else if c = CHR 0x0D then [CHR 0x5C, CHR ''r'']
         else if n < 32 \<or> (127 \<le> n \<and> n \<le> 160) \<or> n = 173
           then [CHR 0x5C, CHR ''x''] @ hex_byte n
         else [c])"

definition repr_str :: "string \<Rightarrow> string" where
  "repr_str s =
     (let q = (if CHR 0x27 \<in> set s \<and> CHR 0x22 \<notin> set s then CHR 0x22 else CHR 0x27)
      in [q] @ concat (map (repr_char q) s) @ [q])"

text \<open>\<open>str(x)\<close>: a string is itself, every other value prints as its \<open>repr\<close>.\<close>

fun py_repr :: "json \<Rightarrow> string" where
  "py_repr JNull = ''None''"
| "py_repr (JBool b) = (if b then ''True'' else ''False'')"
| "py_repr (JNum n) = dec_int n"
| "py_repr (JStr s) = repr_str s"
| "py_repr (JArr xs) = ''['' @ py_join '', '' (map py_repr xs) @ '']''"
| "py_repr (JObj kvs) =
     ''{'' @ py_join '', '' (map (\<lambda>kv. repr_str (fst kv) @ '': '' @ py_repr (snd kv)) kvs) @ ''}''"

definition py_str :: "json \<Rightarrow> string" where
  "py_str v = (case v of JStr s \<Rightarrow> s | _ \<Rightarrow> py_repr v)"

text \<open>
  \<open>_first_location\<close>: a string is itself, a dict gives its \<open>name\<close> or \<open>location\<close>, a
  list the first item that is a dict with one of the two or that is a string.
\<close>

fun first_in_list :: "json list \<Rightarrow> json" where
  "first_in_list [] = JNull"
| "first_in_list (JObj d # rest) =
     (if truthy (py_or (py_get d ''name'') (py_get d ''location''))
      then py_or (py_get d ''name'') (py_get d ''location'')
      else first_in_list rest)"
| "first_in_list (JStr s # rest) = JStr s"
| "first_in_list (_ # rest) = first_in_list rest"

definition first_location :: "json \<Rightarrow> json" where
  "first_location candidate =
     (if \<not> truthy candidate then JNull
      else case candidate of
             JStr s \<Rightarrow> JStr s
           | JObj d \<Rightarrow> py_or (py_get d ''name'') (py_or (py_get d ''location'') JNull)
           | JArr items \<Rightarrow> first_in_list items
           | _ \<Rightarrow> JNull)"

text \<open>\<open>v.get(k)\<close> on a value that need not be a dict.\<close>

definition get_attr :: "json \<Rightarrow> string \<Rightarrow> exn + json" where
  "get_attr v k = (case v of JObj d \<Rightarrow> Inr (py_get d k) | _ \<Rightarrow> Inl AttributeError)"

text \<open>The canonical URL field of the PostingsAPI adapter, before trimming.\<close>

definition lever_url_field :: "dict \<Rightarrow> json" where
  "lever_url_field j = py_or (py_get j ''hostedUrl'') (py_or (py_get j ''applyUrl'') (JStr []))"

definition lever_cats :: "dict \<Rightarrow> json" where
  "lever_cats j = py_or (py_get j ''categories'') (JObj [])"

definition lever_org_name :: "string \<Rightarrow> dict \<Rightarrow> json" where
  "lever_org_name company j =
     (case lever_cats j of
        JObj cats \<Rightarrow>
          py_or (py_or (py_get cats ''team'') (py_or (py_get cats ''department'') (JStr company)))
                (JStr company)
      | _ \<Rightarrow> JStr company)"

text \<open>
  \<open>_first_location(j.get("workplaceLocations")) or cats.get("location") or j.get("country")
  or j.get("location")\<close>: \<open>or\<close> evaluates its right operand only where the left is falsy.
\<close>

definition lever_loc :: "dict \<Rightarrow> exn + json" where
  "lever_loc j =
     (let a = first_location (py_get j ''workplaceLocations'')
      in if truthy a then Inr a
         else bind_res (get_attr (lever_cats j) ''location'') (\<lambda>b.
                if truthy b then Inr b
                else Inr (py_or (py_get j ''country'') (py_get j ''location''))))"

definition lever_desc :: "dict \<Rightarrow> json" where
  "lever_desc j =
     (let desc = (case py_get j ''lists'' of
                    JArr xs \<Rightarrow>
                      py_join [CHR 0x0A]
                        (concat (map (\<lambda>x. case x of
                                   JObj d \<Rightarrow> [py_strip (py_str (py_get_default d ''text'' (JStr [])))]
                                 | _ \<Rightarrow> []) xs))
                  | _ \<Rightarrow> [])
      in if desc \<noteq> [] then JStr desc
         else py_or (py_get j ''descriptionPlain'') (py_or (py_get j ''description'') (JStr [])))"

text \<open>The source timestamp of the PostingsAPI adapter: \<open>j.get("createdAt") or j.get("updatedAt")\<close>.\<close>

definition lever_timestamp :: "dict \<Rightarrow> json" where
  "lever_timestamp j = py_or (py_get j ''createdAt'') (py_get j ''updatedAt'')"

text \<open>
  \<open>posted_at\<close> is set only where the timestamp is an \<open>int\<close> or \<open>float\<close>; a \<open>bool\<close> is an
  \<open>int\<close>. \<open>fromtimestamp\<close> may raise.
\<close>

definition lever_posted_at :: "pylib \<Rightarrow> dict \<Rightarrow> exn + string option" where
  "lever_posted_at lib j =
     (let conv = (\<lambda>n. case fromtimestamp_ms_isoformat lib n of
                         None \<Rightarrow> Inl OverflowError | Some s \<Rightarrow> Inr (Some s))
      in case lever_timestamp j of
           JNum n \<Rightarrow> conv n
         | JBool b \<Rightarrow> conv (if b then 1 else 0)
         | _ \<Rightarrow> Inr None)"

definition lever_values :: "pylib \<Rightarrow> string \<Rightarrow> string \<Rightarrow> dict \<Rightarrow> exn + insert_values option" where
  "lever_values lib now company j =
     bind_res (str_or_empty (lever_url_field j)) (\<lambda>u.
       let url = py_strip u in
       if url = [] then Inr None
       else
         bind_res (str_or_empty (py_or (py_get j ''text'') (py_or (py_get j ''title'') (JStr [])))) (\<lambda>t.
         bind_res (lever_loc j) (\<lambda>loc.
         bind_res (lever_posted_at lib j) (\<lambda>posted.
         bind_res (str_or_empty (py_or (lever_desc j) (JStr []))) (\<lambda>d.
         bind_res (sql_bind (lever_org_name company j)) (\<lambda>org.
         bind_res (sql_bind (py_or loc JNull)) (\<lambda>loc'.
           Inr (Some \<lparr>v_board_token = Some (''lever:'' @ company), v_org_name = org,
                  v_title = Some (py_strip t), v_description = Some (py_strip d),
                  v_location = loc', v_post_url = Some url, v_posted_at = posted,
                  v_first_seen_at = Some now, v_last_seen_at = Some now,
                  v_canonical_key = Some (fingerprint url)\<rparr>))))))))"

definition lever_upsert_job ::
  "pylib \<Rightarrow> string \<Rightarrow> string \<Rightarrow> dict \<Rightarrow> job_row list \<Rightarrow> job_row list \<times> outcome" where
  "lever_upsert_job lib now company j rows = execute_upsert lib (lever_values lib now company j) rows"

section \<open>The PaginatedSearchAPI adapter (workday.py)\<close>

definition base_root :: "pylib \<Rightarrow> string \<Rightarrow> exn + string" where
  "base_root lib cxs_url =
     (case urlsplit lib cxs_url of
        None \<Rightarrow> Inl ValueError
      | Some (scheme, netloc, path) \<Rightarrow> Inr (urlunsplit lib scheme netloc []))"

definition rstrip_slash :: "string \<Rightarrow> string" where
  "rstrip_slash s = rev (dropWhile (\<lambda>c. c = CHR ''/'') (rev s))"

definition normalize_url :: "pylib \<Rightarrow> string \<Rightarrow> exn + string" where
  "normalize_url lib u =
     (case urlsplit lib u of
        None \<Rightarrow> Inl ValueError
      | Some (scheme, netloc, path) \<Rightarrow>
          Inr (urlunsplit lib scheme (py_lower netloc) (rstrip_slash path)))"

text \<open>
  \<open>subtitles[0].get("title").strip()\<close> where \<open>subtitles\<close> is a non-empty list whose first
  item is a dict, else the empty string; then \<open>or endpoint_label\<close>.
\<close>

definition wd_org_name :: "string \<Rightarrow> dict \<Rightarrow> exn + string" where
  "wd_org_name endpoint_label rec =
     bind_res
       (case py_get rec ''subtitles'' of
          JArr (JObj d # _) \<Rightarrow>
            (case py_get d ''title'' of JStr s \<Rightarrow> Inr (py_strip s) | _ \<Rightarrow> Inl AttributeError)
        | _ \<Rightarrow> Inr [])
       (\<lambda>s. Inr (if s = [] then endpoint_label else s))"

text \<open>\<open>rec.get("externalPath") or rec.get("externalUrlPath") or ""\<close>.\<close>

definition wd_external_path :: "dict \<Rightarrow> json" where
  "wd_external_path rec =
     py_or (py_get rec ''externalPath'') (py_or (py_get rec ''externalUrlPath'') (JStr []))"

text \<open>\<open>rec.get("postedOn") or rec.get("postedDate") or rec.get("createdOn")\<close>.\<close>

definition wd_timestamp :: "dict \<Rightarrow> json" where
  "wd_timestamp rec =
     py_or (py_get rec ''postedOn'') (py_or (py_get rec ''postedDate'') (py_get rec ''createdOn''))"

text \<open>
  The block after the statement imports \<open>normalize_fields\<close> from a module \<open>normalize\<close>
  and updates columns that the table of core.py does not have; its \<open>except Exception: pass\<close>
  swallows the failure, so it leaves the table as the statement left it.
\<close>

definition wd_values :: "pylib \<Rightarrow> string \<Rightarrow> string \<Rightarrow> dict \<Rightarrow> exn + insert_values option" where
  "wd_values lib now endpoint_label rec =
     bind_res (str_or_empty (py_get rec ''title'')) (\<lambda>t.
       let ti = py_strip t in
       if ti = [] then Inr None
       else
         bind_res (wd_org_name endpoint_label rec) (\<lambda>org.
         bind_res (str_or_empty (py_or (py_get rec ''locationsText'')
                                   (py_or (py_get rec ''location'') (JStr [])))) (\<lambda>l.
           let loc = py_strip l; external_path = wd_external_path rec in
           if \<not> truthy external_path then Inr None
           else
             bind_res (base_root lib endpoint_label) (\<lambda>root.
             bind_res (case external_path of JStr p \<Rightarrow> Inr (root @ p) | _ \<Rightarrow> Inl TypeError) (\<lambda>u.
             bind_res (normalize_url lib u) (\<lambda>url.
             bind_res (sql_bind (wd_timestamp rec)) (\<lambda>posted.
               Inr (Some \<lparr>v_board_token = Some (''workday:'' @ endpoint_label),
                      v_org_name = Some org, v_title = Some ti, v_description = Some [],
                      v_location = (if loc = [] then None else Some loc),
                      v_post_url = Some url, v_posted_at = posted,
                      v_first_seen_at = Some now, v_last_seen_at = Some now,
                      v_canonical_key = Some (fingerprint url)\<rparr>))))))))"

definition wd_upsert_job ::
  "pylib \<Rightarrow> string \<Rightarrow> string \<Rightarrow> dict \<Rightarrow> job_row list \<Rightarrow> job_row list \<times> outcome" where
  "wd_upsert_job lib now endpoint_label rec rows =
     execute_upsert lib (wd_values lib now endpoint_label rec) rows"

section \<open>Retries with backoff (core.py)\<close>










section \<open>Paginated fetch (workday.py)\<close>

text \<open>
  A response as the loop reads it: the status code and the parsed body (\<open>None\<close> where
  \<open>r.json()\<close> raises). The endpoint is taken as two functions of the request's
  \<open>limit\<close>, \<open>offset\<close> and \<open>searchText\<close>, one for \<open>client.post\<close> and one for \<open>client.get\<close>;
  either may raise instead of answering.
\<close>

record response =
  status_code :: nat
  json_body :: "json option"

type_synonym endpoint = "int \<Rightarrow> int \<Rightarrow> string \<Rightarrow> exn + response"

text \<open>\<open>_extract_posts\<close>: the two shapes of a Workday payload.\<close>

definition extract_posts :: "json \<Rightarrow> exn + json" where
  "extract_posts payload =
     (case payload of
        JObj d \<Rightarrow>
          let posts = py_get d ''jobPostings'';
              posts' = (if posts = JNull
                        then (case py_get d ''data'' of
                                JObj inner \<Rightarrow> py_get inner ''jobPostings''
                              | _ \<Rightarrow> posts)
                        else posts)
          in Inr (py_or posts' (JArr []))
      | _ \<Rightarrow> Inl AttributeError)"

text \<open>
  One turn of the loop up to \<open>posts = _extract_posts(data)\<close>: POST, the GET fallback on
  400 or 405, \<open>raise_for_status\<close> (anything but 2xx raises), \<open>r.json()\<close>.
\<close>

definition fetch_page :: "endpoint \<Rightarrow> endpoint \<Rightarrow> string \<Rightarrow> int \<Rightarrow> int \<Rightarrow> exn + json" where
  "fetch_page post get_params search_text page_limit offset =
     bind_res (post page_limit offset search_text) (\<lambda>r0.
     bind_res (if status_code r0 = 400 \<or> status_code r0 = 405
               then get_params page_limit offset search_text else Inr r0) (\<lambda>r.
       if \<not> (200 \<le> status_code r \<and> status_code r \<le> 299) then Inl HTTPStatusError
       else case json_body r of
              None \<Rightarrow> Inl JSONDecodeError
            | Some data \<Rightarrow> extract_posts data))"

text \<open>
  What \<open>all_posts.extend(posts)\<close> appends, for a truthy \<open>posts\<close>: the items of a list, the
  characters of a string, the keys of a dict; a number is not iterable. \<open>len(posts)\<close> is
  the number of these.
\<close>

definition py_iter :: "json \<Rightarrow> exn + json list" where
  "py_iter v =
     (case v of
        JArr xs \<Rightarrow> Inr xs
      | JStr s \<Rightarrow> Inr (map (\<lambda>c. JStr [c]) s)
      | JObj kvs \<Rightarrow> Inr (map JStr (rev (remdups (rev (map fst kvs)))))
      | _ \<Rightarrow> Inl TypeError)"

text \<open>The records of the page at an offset (empty for a falsy \<open>posts\<close>).\<close>

definition page_posts :: "endpoint \<Rightarrow> endpoint \<Rightarrow> string \<Rightarrow> int \<Rightarrow> int \<Rightarrow> exn + json list" where
  "page_posts post get_params search_text page_limit offset =
     bind_res (fetch_page post get_params search_text page_limit offset) (\<lambda>posts.
       if \<not> truthy posts then Inr [] else py_iter posts)"

text \<open>
  The loop \<open>for _ in range(max_pages)\<close>, by the number of turns left. The result is
  \<open>all_posts\<close>, or the exception that left the function, together with the number of
  pages fetched (turns begun).
\<close>

fun fetch_loop ::
  "endpoint \<Rightarrow> endpoint \<Rightarrow> string \<Rightarrow> int \<Rightarrow> nat \<Rightarrow> int \<Rightarrow> json list
     \<Rightarrow> (exn + json list) \<times> nat" where
  "fetch_loop post get_params search_text page_limit 0 offset all_posts = (Inr all_posts, 0)"
| "fetch_loop post get_params search_text page_limit (Suc n) offset all_posts =
     (case page_posts post get_params search_text page_limit offset of
        Inl e \<Rightarrow> (Inl e, 1)
      | Inr posts \<Rightarrow>
          if posts = [] then (Inr all_posts, 1)
          else if int (length posts) < page_limit then (Inr (all_posts @ posts), 1)
          else (let (res, k) = fetch_loop post get_params search_text page_limit n
                                 (offset + page_limit) (all_posts @ posts)
                in (res, Suc k)))"

definition fetch_jobs ::
  "endpoint \<Rightarrow> endpoint \<Rightarrow> string \<Rightarrow> int \<Rightarrow> int \<Rightarrow> (exn + json list) \<times> nat" where
  "fetch_jobs post get_params search_text page_limit max_pages =
     fetch_loop post get_params search_text page_limit (nat max_pages) 0 []"

text \<open>The records of the page at an offset (empty where the fetch raises).\<close>

definition recs_at :: "endpoint \<Rightarrow> endpoint \<Rightarrow> string \<Rightarrow> int \<Rightarrow> int \<Rightarrow> json list" where
  "recs_at post gp s lim off =
     (case page_posts post gp s lim off of Inr posts \<Rightarrow> posts | Inl _ \<Rightarrow> [])"

text \<open>The records of the \<open>k\<close>-th page, at offset \<open>k * page_limit\<close> (empty where the fetch raises).\<close>

definition page_records :: "endpoint \<Rightarrow> endpoint \<Rightarrow> string \<Rightarrow> int \<Rightarrow> nat \<Rightarrow> json list" where
  "page_records post get_params search_text page_limit k =
     (case page_posts post get_params search_text page_limit (int k * page_limit) of
        Inr posts \<Rightarrow> posts | Inl _ \<Rightarrow> [])"

section \<open>The normalizer (normalizer.py)\<close>

text \<open>
  The patterns of the normalizer use literals, character classes, alternation, \<open>?\<close> and
  the word boundary \<open>\b\<close>. A pattern is matched by computing, for a start position, the
  positions at which a match may end; \<open>re.search\<close> asks whether some start has one.
\<close>

datatype regex =
    Eps
  | Chr char
  | OneOf string
  | Seq regex regex
  | Alt regex regex
  | Opt regex
  | WordBoundary

text \<open>The code points below 256 that \<open>\w\<close> matches in a \<open>str\<close> pattern.\<close>

definition is_word_char :: "char \<Rightarrow> bool" where
  "is_word_char c =
     (let n = (of_char c :: nat)
      in (48 \<le> n \<and> n \<le> 57) \<or> (65 \<le> n \<and> n \<le> 90) \<or> n = 95 \<or> (97 \<le> n \<and> n \<le> 122)
         \<or> n = 170 \<or> n = 178 \<or> n = 179 \<or> n = 181 \<or> n = 185 \<or> n = 186
         \<or> (188 \<le> n \<and> n \<le> 190) \<or> (192 \<le> n \<and> n \<le> 214) \<or> (216 \<le> n \<and> n \<le> 246)
         \<or> 248 \<le> n)"

definition word_at :: "string \<Rightarrow> nat \<Rightarrow> bool" where
  "word_at s i = (i < length s \<and> is_word_char (s ! i))"

text \<open>Equality of characters, under \<open>re.I\<close> where \<open>ci\<close> is set.\<close>

definition eq_char :: "bool \<Rightarrow> char \<Rightarrow> char \<Rightarrow> bool" where
  "eq_char ci a b = (if ci then py_lower_char a = py_lower_char b else a = b)"

fun ends :: "bool \<Rightarrow> regex \<Rightarrow> string \<Rightarrow> nat \<Rightarrow> nat list" where
  "ends ci Eps s i = [i]"
| "ends ci (Chr c) s i = (if i < length s \<and> eq_char ci (s ! i) c then [Suc i] else [])"
| "ends ci (OneOf cs) s i =
     (if i < length s \<and> list_ex (eq_char ci (s ! i)) cs then [Suc i] else [])"
| "ends ci (Seq a b) s i = concat (map (ends ci b s) (ends ci a s i))"
| "ends ci (Alt a b) s i = ends ci a s i @ ends ci b s i"
| "ends ci (Opt a) s i = ends ci a s i @ [i]"
| "ends ci WordBoundary s i =
     (if (0 < i \<and> word_at s (i - 1)) \<noteq> word_at s i then [i] else [])"

definition re_search :: "bool \<Rightarrow> regex \<Rightarrow> string \<Rightarrow> bool" where
  "re_search ci r s = list_ex (\<lambda>i. ends ci r s i \<noteq> []) [0..<Suc (length s)]"

fun lit :: "string \<Rightarrow> regex" where
  "lit [] = Eps"
| "lit (c # cs) = Seq (Chr c) (lit cs)"

text \<open>\<open>\b(...)\b\<close>, and \<open>a[- ]?b\<close>.\<close>

definition bounded :: "regex \<Rightarrow> regex" where
  "bounded r = Seq WordBoundary (Seq r WordBoundary)"

definition hyphenated :: "string \<Rightarrow> string \<Rightarrow> regex" where
  "hyphenated a b = Seq (lit a) (Seq (Opt (OneOf ''- '')) (lit b))"

definition LEVEL_PATTERNS :: "(regex \<times> string) list" where
  "LEVEL_PATTERNS =
     [(bounded (Alt (lit ''intern'') (Alt (lit ''internship'') (hyphenated ''co'' ''op''))), ''intern''),
      (bounded (Alt (hyphenated ''entry'' ''level'')
                 (Alt (lit ''junior'') (Seq (lit ''jr'') (Opt (Chr CHR ''.''))))), ''junior''),
      (bounded (Alt (lit ''senior'') (Seq (lit ''sr'') (Opt (Chr CHR ''.'')))), ''senior''),
      (bounded (Alt (lit ''principal'') (Alt (lit ''staff'') (lit ''lead''))), ''principal''),
      (bounded (Alt (lit ''manager'') (lit ''managing'')), ''manager''),
      (bounded (Alt (lit ''director'') (lit ''head of'')), ''director'')]"

definition WORK_TYPE_PATTERNS :: "(regex \<times> string) list" where
  "WORK_TYPE_PATTERNS =
     [(bounded (hyphenated ''on'' ''site''), ''onsite''),
      (bounded (lit ''hybrid''), ''hybrid''),
      (bounded (lit ''remote''), ''remote'')]"

definition EMPLOYMENT_PATTERNS :: "(regex \<times> string) list" where
  "EMPLOYMENT_PATTERNS =
     [(bounded (hyphenated ''full'' ''time''), ''full-time''),
      (bounded (hyphenated ''part'' ''time''), ''part-time''),
      (bounded (Alt (lit ''contract'') (Alt (lit ''contractor'') (Alt (lit ''temporary'')
                 (Alt (lit ''temp'') (hyphenated ''fixed'' ''term''))))), ''contract'')]"

text \<open>The loop \<open>for pat, val in PATTERNS: if re.search(pat, t): return val\<close>.\<close>

fun first_match :: "(regex \<times> string) list \<Rightarrow> string \<Rightarrow> string option" where
  "first_match [] t = None"
| "first_match ((pat, val) # rest) t = (if re_search False pat t then Some val else first_match rest t)"

definition infer_level :: "string \<Rightarrow> string option" where
  "infer_level text = first_match LEVEL_PATTERNS (py_lower text)"

text \<open>An optional string \<open>or ""\<close>.\<close>

definition or_empty :: "string option \<Rightarrow> string" where
  "or_empty s = (case s of None \<Rightarrow> [] | Some t \<Rightarrow> t)"

definition infer_work_type :: "string \<Rightarrow> string option \<Rightarrow> string option" where
  "infer_work_type text location_text =
     (let blob = py_lower (py_join '' '' [text, or_empty location_text])
      in case first_match WORK_TYPE_PATTERNS blob of
           Some val \<Rightarrow> Some val
         | None \<Rightarrow>
             if or_empty location_text \<noteq> [] \<and> py_in ''remote'' (py_lower (or_empty location_text))
             then Some ''remote'' else None)"

definition infer_employment :: "string \<Rightarrow> string option" where
  "infer_employment text = first_match EMPLOYMENT_PATTERNS (py_lower text)"

text \<open>\<open>s or None\<close> for a string.\<close>

definition or_none :: "string \<Rightarrow> string option" where
  "or_none s = (if s = [] then None else Some s)"

definition split_location ::
  "string option \<Rightarrow> string option \<times> string option \<times> string option \<times> int option" where
  "split_location loc =
     (if or_empty loc = [] then (None, None, None, None)
      else
        let parts = map py_strip (split_on (\<lambda>c. c \<in> set '';/|-'') [] (or_empty loc));
            first = (case parts of [] \<Rightarrow> [] | p # _ \<Rightarrow> p);
            frags = map py_strip (split_on (\<lambda>c. c = CHR '','') [] first);
            city = (case frags of [] \<Rightarrow> None | f # _ \<Rightarrow> or_none f);
            state = (case frags of _ # f # _ \<Rightarrow> or_none f | _ \<Rightarrow> None);
            country = (case frags of _ # _ # f # _ \<Rightarrow> or_none f | _ \<Rightarrow> None);
            remote = (if re_search True (bounded (lit ''remote'')) (or_empty loc)
                      then Some 1 else None)
        in (city, state, country, remote))"

record normalized =
  role_level :: "string option"
  work_type :: "string option"
  employment_type :: "string option"
  city :: "string option"
  state :: "string option"
  country :: "string option"
  remote :: "int option"

definition normalize_fields :: "string \<Rightarrow> string \<Rightarrow> string option \<Rightarrow> normalized" where
  "normalize_fields ti desc loc =
     (let level = infer_level (ti @ '' '' @ desc);
          wt = infer_work_type desc loc;
          employment = infer_employment (ti @ '' '' @ desc);
          (c, s, co, remote_flag) = split_location loc
      in \<lparr>role_level = level, work_type = wt, employment_type = employment,
          city = c, state = s, country = co, remote = remote_flag\<rparr>)"

section \<open>A reference library\<close>

text \<open>
  An instance of the library parameters, for evaluating the adapters on concrete
  records. It follows CPython on ASCII input: ISO timestamps of the one shape
  \<open>YYYY-MM-DDTHH:MM:SS+00:00\<close> (which every \<open>fromisoformat\<close> since 3.7 reads, and
  \<open>isoformat\<close> prints back unchanged), epoch milliseconds by exact calendar arithmetic,
  and \<open>urlsplit\<close>/\<open>urlunsplit\<close> as \<open>urllib.parse\<close> of 3.11 defines them.
\<close>

definition is_digit :: "char \<Rightarrow> bool" where
  "is_digit c \<longleftrightarrow> c \<in> set ''0123456789''"

definition digit_val :: "char \<Rightarrow> nat" where
  "digit_val c = of_char c - 48"

definition two_digits :: "string \<Rightarrow> nat option" where
  "two_digits s =
     (case s of [a, b] \<Rightarrow>
        if is_digit a \<and> is_digit b then Some (10 * digit_val a + digit_val b) else None
      | _ \<Rightarrow> None)"

definition in_range :: "nat option \<Rightarrow> nat \<Rightarrow> nat \<Rightarrow> bool" where
  "in_range v lo hi = (case v of None \<Rightarrow> False | Some n \<Rightarrow> lo \<le> n \<and> n \<le> hi)"

definition days_in_month :: "nat \<Rightarrow> nat \<Rightarrow> nat" where
  "days_in_month y m =
     (if m = 2 then (if (y mod 4 = 0 \<and> y mod 100 \<noteq> 0) \<or> y mod 400 = 0 then 29 else 28)
      else if m \<in> set [4, 6, 9, 11] then 30 else 31)"

definition iso_seconds_utc :: "string \<Rightarrow> string option" where
  "iso_seconds_utc s =
     (case (two_digits (take 2 s), two_digits (take 2 (drop 2 s)),
            two_digits (take 2 (drop 5 s)), two_digits (take 2 (drop 8 s))) of
        (Some c, Some y, Some m, Some d) \<Rightarrow>
          if length s = 25 \<and> 1 \<le> 100 * c + y
             \<and> s ! 4 = CHR ''-'' \<and> 1 \<le> m \<and> m \<le> 12
             \<and> s ! 7 = CHR ''-'' \<and> 1 \<le> d \<and> d \<le> days_in_month (100 * c + y) m
             \<and> s ! 10 = CHR ''T'' \<and> in_range (two_digits (take 2 (drop 11 s))) 0 23
             \<and> s ! 13 = CHR '':'' \<and> in_range (two_digits (take 2 (drop 14 s))) 0 59
             \<and> s ! 16 = CHR '':'' \<and> in_range (two_digits (take 2 (drop 17 s))) 0 59
             \<and> drop 19 s = ''+00:00''
          then Some s else None
      | _ \<Rightarrow> None)"

definition pad_dec :: "nat \<Rightarrow> int \<Rightarrow> string" where
  "pad_dec w n = (let d = dec_int n in replicate (w - length d) CHR ''0'' @ d)"

text \<open>The civil date of a day number counted from 1970-01-01 (proleptic Gregorian).\<close>

definition civil_from_days :: "int \<Rightarrow> int \<times> int \<times> int" where
  "civil_from_days days =
     (let z = days + 719468;
          era = z div 146097;
          doe = z mod 146097;
          yoe = (doe - doe div 1460 + doe div 36524 - doe div 146096) div 365;
          doy = doe - (365 * yoe + yoe div 4 - yoe div 100);
          mp = (5 * doy + 2) div 153;
          d = doy - (153 * mp + 2) div 5 + 1;
          m = (if mp < 10 then mp + 3 else mp - 9);
          y = yoe + era * 400 + (if m \<le> 2 then 1 else 0)
      in (y, m, d))"

definition epoch_ms_utc :: "int \<Rightarrow> string option" where
  "epoch_ms_utc ts =
     (let (y, m, d) = civil_from_days (ts div 86400000);
          r = ts mod 86400000;
          ms = r mod 1000
      in if y < 1 \<or> 9999 < y then None
         else Some (pad_dec 4 y @ ''-'' @ pad_dec 2 m @ ''-'' @ pad_dec 2 d @ ''T''
                    @ pad_dec 2 (r div 3600000) @ '':'' @ pad_dec 2 (r div 60000 mod 60)
                    @ '':'' @ pad_dec 2 (r div 1000 mod 60)
                    @ (if ms = 0 then [] else ''.'' @ pad_dec 3 ms @ ''000'')
                    @ ''+00:00''))"

definition scheme_chars :: string where
  "scheme_chars = ''abcdefghijklmnopqrstuvwxyzABCDEFGHIJKLMNOPQRSTUVWXYZ0123456789+-.''"

definition ascii_alpha :: "char \<Rightarrow> bool" where
  "ascii_alpha c \<longleftrightarrow> c \<in> set ''abcdefghijklmnopqrstuvwxyzABCDEFGHIJKLMNOPQRSTUVWXYZ''"

definition split_scheme :: "string \<Rightarrow> string \<times> string" where
  "split_scheme url =
     (let pre = takeWhile (\<lambda>c. c \<noteq> CHR '':'') url;
          post = dropWhile (\<lambda>c. c \<noteq> CHR '':'') url
      in if post \<noteq> [] \<and> pre \<noteq> [] \<and> ascii_alpha (hd pre) \<and> list_all (\<lambda>c. c \<in> set scheme_chars) pre
         then (py_lower pre, tl post) else ([], url))"

definition cpython_urlsplit :: "string \<Rightarrow> (string \<times> string \<times> string) option" where
  "cpython_urlsplit u =
     (let url0 = filter (\<lambda>c. c \<notin> set [CHR 0x09, CHR 0x0A, CHR 0x0D])
                   (dropWhile (\<lambda>c. (of_char c :: nat) \<le> 32) u);
          (scheme, url1) = split_scheme url0;
          delim = (\<lambda>c. c \<in> set ''/?#'');
          (netloc, url2) =
            (if take 2 url1 = ''//''
             then (takeWhile (\<lambda>c. \<not> delim c) (drop 2 url1), dropWhile (\<lambda>c. \<not> delim c) (drop 2 url1))
             else ([], url1));
          path = takeWhile (\<lambda>c. c \<noteq> CHR ''?'') (takeWhile (\<lambda>c. c \<noteq> CHR ''#'') url2)
      in if (CHR ''['' \<in> set netloc) \<noteq> (CHR '']'' \<in> set netloc) then None
         else Some (scheme, netloc, path))"

definition uses_netloc :: "string list" where
  "uses_netloc = [[], ''ftp'', ''http'', ''gopher'', ''nntp'', ''telnet'', ''imap'', ''wais'',
     ''file'', ''mms'', ''https'', ''shttp'', ''snews'', ''prospero'', ''rtsp'', ''rtspu'',
     ''rsync'', ''svn'', ''svn+ssh'', ''sftp'', ''nfs'', ''git'', ''git+ssh'', ''ws'', ''wss'']"

definition cpython_urlunsplit :: "string \<Rightarrow> string \<Rightarrow> string \<Rightarrow> string" where
  "cpython_urlunsplit scheme netloc path =
     (let url = (if netloc \<noteq> [] \<or> (scheme \<noteq> [] \<and> scheme \<in> set uses_netloc \<and> take 2 path \<noteq> ''//'')
                 then ''//'' @ netloc @ (if path \<noteq> [] \<and> take 1 path \<noteq> ''/'' then ''/'' @ path else path)
                 else path)
      in if scheme \<noteq> [] then scheme @ '':'' @ url else url)"

definition cpython :: pylib where
  "cpython = \<lparr>fromisoformat_isoformat = iso_seconds_utc,
              fromtimestamp_ms_isoformat = epoch_ms_utc,
              urlsplit = cpython_urlsplit,
              urlunsplit = cpython_urlunsplit,
              bind_error_caught = True\<rparr>"

text \<open>A field that is missing, or a string that is blank after trimming.\<close>

definition blank_field :: "json \<Rightarrow> bool" where
  "blank_field v = (case v of JNull \<Rightarrow> True | JStr s \<Rightarrow> py_strip s = [] | _ \<Rightarrow> False)"

text \<open>No \<open>NULL\<close> is bound to a \<open>NOT NULL\<close> column.\<close>

definition bound_not_null :: "insert_values \<Rightarrow> bool" where
  "bound_not_null v \<longleftrightarrow>
     v_board_token v \<noteq> None \<and> v_org_name v \<noteq> None \<and> v_title v \<noteq> None
     \<and> v_description v \<noteq> None \<and> v_post_url v \<noteq> None \<and> v_first_seen_at v \<noteq> None
     \<and> v_last_seen_at v \<noteq> None \<and> v_canonical_key v \<noteq> None"

text \<open>The trimmed URL of a BoardAPI record (empty where the field has no string).\<close>

definition gh_url :: "dict \<Rightarrow> string" where
  "gh_url j = (case str_or_empty (py_get j ''absolute_url'') of Inr u \<Rightarrow> py_strip u | Inl _ \<Rightarrow> [])"

subsection \<open>Sample inputs\<close>

text \<open>Concrete records and rows on which the theorems below are instantiated.\<close>

definition sample_url :: string where
  "sample_url = ''https://boards.greenhouse.io/acme/jobs/1''"


definition day1 :: string where "day1 = ''2024-05-01T10:00:00+00:00''"




definition lever_url_sample :: string where
  "lever_url_sample = ''https://jobs.lever.co/acme/42''"



definition wd_endpoint_sample :: string where
  "wd_endpoint_sample = ''https://acme.wd5.myworkdayjobs.com/wday/cxs/acme/Ext/jobs''"

definition wd_url_sample :: string where
  "wd_url_sample = ''https://acme.wd5.myworkdayjobs.com/job/NYC/Engineer_R1''"

definition wd_job_sample :: dict where
  "wd_job_sample = [(''title'', JStr ''Engineer''), (''externalPath'', JStr ''/job/NYC/Engineer_R1'')]"


definition gh_job_both :: dict where
  "gh_job_both =
     [(''absolute_url'', JStr sample_url), (''title'', JStr ''Backend  Engineer''),
      (''updated_at'', JStr ''2024-04-30T08:00:00Z''),
      (''created_at'', JStr ''2024-04-01T08:00:00Z'')]"

definition lever_job_both :: dict where
  "lever_job_both =
     [(''hostedUrl'', JStr lever_url_sample), (''text'', JStr ''Data Analyst''),
      (''createdAt'', JNum 1700000000000), (''updatedAt'', JNum 1700086400000)]"



text \<open>An endpoint with three postings, served two to a page.\<close>

definition three_postings :: endpoint where
  "three_postings page_limit offset search_text =
     Inr \<lparr>status_code = 200,
          json_body = Some (JObj [(''total'', JNum 3),
            (''jobPostings'',
              JArr (if offset = 0 then [JObj [(''title'', JStr ''A'')], JObj [(''title'', JStr ''B'')]]
                    else if offset = 2 then [JObj [(''title'', JStr ''C'')]]
                    else []))])\<rparr>"

definition no_get :: endpoint where
  "no_get page_limit offset search_text = Inl RequestError"

section \<open>Properties\<close>

lemma bind_res_simps [simp]:
  "bind_res (Inl e) f = Inl e"
  "bind_res (Inr v) f = f v"
  by (simp_all add: bind_res_def)

lemma py_strip_Nil [simp]: "py_strip [] = []"
  by (simp add: py_strip_def)

lemma str_or_empty_blank:
  "blank_field v \<Longrightarrow> \<exists>s. str_or_empty v = Inr s \<and> py_strip s = []"
  by (cases v) (auto simp: blank_field_def str_or_empty_def)

lemma execute_upsert_skip [simp]: "execute_upsert lib (Inr None) rows = (rows, Skipped)"
  by (simp add: execute_upsert_def)

lemma gh_values_blank:
  assumes "blank_field (py_get j ''absolute_url'')"
  shows "gh_values lib now token org j = Inr None"
proof -
  from assms obtain s where "str_or_empty (py_get j ''absolute_url'') = Inr s" "py_strip s = []"
    using str_or_empty_blank by blast
  then show ?thesis by (simp add: gh_values_def)
qed

lemma lever_values_blank:
  assumes "blank_field (lever_url_field j)"
  shows "lever_values lib now company j = Inr None"
proof -
  from assms obtain s where "str_or_empty (lever_url_field j) = Inr s" "py_strip s = []"
    using str_or_empty_blank by blast
  then show ?thesis by (simp add: lever_values_def)
qed

subsection \<open>Records without a usable URL are skipped\<close>

text \<open>
  C8. A raw record whose canonical URL field is missing, or blank after trimming, is
  skipped by \<open>upsert_job\<close> of the BoardAPI adapter (field \<open>absolute_url\<close>) and of the
  PostingsAPI adapter (field \<open>hostedUrl\<close>, else \<open>applyUrl\<close>): the call returns before the
  statement, the table is as it was and no exception is raised.
\<close>

theorem blank_url_is_skipped:
  "(blank_field (py_get j ''absolute_url'') \<longrightarrow>
      gh_upsert_job lib now token org j rows = (rows, Skipped))
   \<and> (blank_field (lever_url_field j) \<longrightarrow>
      lever_upsert_job lib now company j rows = (rows, Skipped))"
  by (simp add: gh_upsert_job_def lever_upsert_job_def gh_values_blank lever_values_blank)

lemma py_get_simps [simp]:
  "py_get [] k = JNull"
  "py_get (d @ [(k', v)]) k = (if k = k' then v else py_get d k)"
  by (simp_all add: py_get_def)

theorem blank_url_is_skipped_witness:
  "blank_field (py_get [(''title'', JStr ''Engineer''), (''absolute_url'', JStr ''   '')] ''absolute_url'')
   \<and> gh_upsert_job cpython ''2024-05-01T10:00:00+00:00'' ''acme'' ''Acme''
        [(''title'', JStr ''Engineer''), (''absolute_url'', JStr ''   '')] [] = ([], Skipped)
   \<and> blank_field (lever_url_field [(''text'', JStr ''Engineer'')])
   \<and> lever_upsert_job cpython ''2024-05-01T10:00:00+00:00'' ''acme''
        [(''text'', JStr ''Engineer'')] [] = ([], Skipped)"
proof -
  have a: "blank_field (py_get [(''title'', JStr ''Engineer''), (''absolute_url'', JStr ''   '')] ''absolute_url'')"
    by (simp add: blank_field_def py_get_def py_strip_def py_isspace_def)
  have b: "blank_field (lever_url_field [(''text'', JStr ''Engineer'')])"
    by (simp add: blank_field_def lever_url_field_def py_or_def py_get_def)
  show ?thesis
    using a b
      blank_url_is_skipped [where j = "[(''title'', JStr ''Engineer''), (''absolute_url'', JStr ''   '')]"
        and lib = cpython and now = "''2024-05-01T10:00:00+00:00''" and token = "''acme''"
        and org = "''Acme''" and rows = "[]"]
      blank_url_is_skipped [where j = "[(''text'', JStr ''Engineer'')]"
        and lib = cpython and now = "''2024-05-01T10:00:00+00:00''" and company = "''acme''"
        and rows = "[]"]
    by blast
qed


lemma execute_upsert_raise:
  "e \<noteq> InterfaceError \<Longrightarrow> execute_upsert lib (Inl e) rows = (rows, Raised e)"
  by (cases e) (simp_all add: execute_upsert_def)

lemma str_or_empty_cases:
  "str_or_empty v = Inl AttributeError \<or> (\<exists>s. str_or_empty v = Inr s)"
  by (cases v) (auto simp: str_or_empty_def)

lemma wd_org_name_cases:
  "wd_org_name ep rec = Inl AttributeError \<or> (\<exists>s. wd_org_name ep rec = Inr s)"
  by (auto simp: wd_org_name_def split: json.splits list.splits)

lemma wd_values_blank_title:
  assumes "blank_field (py_get rec ''title'')"
  shows "wd_values lib now ep rec = Inr None"
proof -
  from assms obtain s where "str_or_empty (py_get rec ''title'') = Inr s" "py_strip s = []"
    using str_or_empty_blank by blast
  then show ?thesis by (simp add: wd_values_def)
qed

lemma wd_values_no_path:
  assumes "\<not> truthy (wd_external_path rec)"
  shows "wd_values lib now ep rec = Inr None \<or> wd_values lib now ep rec = Inl AttributeError"
proof -
  let ?l = "py_or (py_get rec ''locationsText'') (py_or (py_get rec ''location'') (JStr []))"
  consider (a) "str_or_empty (py_get rec ''title'') = Inl AttributeError"
    | (b) t where "str_or_empty (py_get rec ''title'') = Inr t" "py_strip t = []"
    | (c) t where "str_or_empty (py_get rec ''title'') = Inr t" "py_strip t \<noteq> []"
        "wd_org_name ep rec = Inl AttributeError"
    | (d) t org where "str_or_empty (py_get rec ''title'') = Inr t" "py_strip t \<noteq> []"
        "wd_org_name ep rec = Inr org" "str_or_empty ?l = Inl AttributeError"
    | (e) t org l where "str_or_empty (py_get rec ''title'') = Inr t" "py_strip t \<noteq> []"
        "wd_org_name ep rec = Inr org" "str_or_empty ?l = Inr l"
    using str_or_empty_cases [of "py_get rec ''title''"] str_or_empty_cases [of ?l]
      wd_org_name_cases [of ep rec] by blast
  then show ?thesis
    using assms by cases (simp_all add: wd_values_def)
qed

lemma wd_values_no_path_typed:
  assumes "\<not> truthy (wd_external_path rec)"
    and "str_or_empty (py_get rec ''title'') = Inr t"
    and "wd_org_name ep rec = Inr org"
    and "str_or_empty (py_or (py_get rec ''locationsText'')
           (py_or (py_get rec ''location'') (JStr []))) = Inr l"
  shows "wd_values lib now ep rec = Inr None"
  using assms by (simp add: wd_values_def Let_def)

subsection \<open>The paginated-search adapter also skips on a blank title or a missing path\<close>

text \<open>
  C10. In the Workday adapter a raw record is skipped, with no write to the table, when
  its title is missing or blank after trimming, and also when it carries no
  \<open>externalPath\<close> and no \<open>externalUrlPath\<close> (or only falsy ones). In the first case
  \<open>upsert_job\<close> returns at once. In the second the table is untouched whatever the other
  fields are: the call returns before the statement, or an \<open>AttributeError\<close> from a field
  of the wrong type leaves the function; where the title, the subtitle and the location
  have their types, it returns.
\<close>

theorem wd_skips_blank_title_or_missing_path:
  "(blank_field (py_get rec ''title'') \<longrightarrow>
      wd_upsert_job lib now ep rec rows = (rows, Skipped))
   \<and> (\<not> truthy (wd_external_path rec) \<longrightarrow>
      wd_upsert_job lib now ep rec rows = (rows, Skipped)
      \<or> wd_upsert_job lib now ep rec rows = (rows, Raised AttributeError))
   \<and> (\<not> truthy (wd_external_path rec)
       \<and> str_or_empty (py_get rec ''title'') = Inr t
       \<and> wd_org_name ep rec = Inr org
       \<and> str_or_empty (py_or (py_get rec ''locationsText'')
            (py_or (py_get rec ''location'') (JStr []))) = Inr l \<longrightarrow>
      wd_upsert_job lib now ep rec rows = (rows, Skipped))"
proof (intro conjI impI)
  assume "blank_field (py_get rec ''title'')"
  then show "wd_upsert_job lib now ep rec rows = (rows, Skipped)"
    by (simp add: wd_upsert_job_def wd_values_blank_title)
next
  assume "\<not> truthy (wd_external_path rec)"
  from wd_values_no_path [OF this, of lib now ep]
  show "wd_upsert_job lib now ep rec rows = (rows, Skipped)
      \<or> wd_upsert_job lib now ep rec rows = (rows, Raised AttributeError)"
    by (auto simp: wd_upsert_job_def execute_upsert_raise)
next
  assume "\<not> truthy (wd_external_path rec)
       \<and> str_or_empty (py_get rec ''title'') = Inr t
       \<and> wd_org_name ep rec = Inr org
       \<and> str_or_empty (py_or (py_get rec ''locationsText'')
            (py_or (py_get rec ''location'') (JStr []))) = Inr l"
  then show "wd_upsert_job lib now ep rec rows = (rows, Skipped)"
    by (simp add: wd_upsert_job_def wd_values_no_path_typed)
qed

theorem wd_skips_blank_title_or_missing_path_witness:
  "blank_field (py_get [(''title'', JStr ''  ''), (''externalPath'', JStr ''/job/NYC/Engineer_R1'')] ''title'')
   \<and> wd_upsert_job cpython ''2024-05-01T10:00:00+00:00'' ''https://acme.wd5.myworkdayjobs.com/wday/cxs/acme/Ext/jobs''
        [(''title'', JStr ''  ''), (''externalPath'', JStr ''/job/NYC/Engineer_R1'')] [] = ([], Skipped)
   \<and> \<not> truthy (wd_external_path [(''title'', JStr ''Engineer''), (''locationsText'', JStr ''New York'')])
   \<and> wd_upsert_job cpython ''2024-05-01T10:00:00+00:00'' ''https://acme.wd5.myworkdayjobs.com/wday/cxs/acme/Ext/jobs''
        [(''title'', JStr ''Engineer''), (''locationsText'', JStr ''New York'')] [] = ([], Skipped)"
proof -
  let ?r1 = "[(''title'', JStr ''  ''), (''externalPath'', JStr ''/job/NYC/Engineer_R1'')]"
  let ?r2 = "[(''title'', JStr ''Engineer''), (''locationsText'', JStr ''New York'')]"
  let ?ep = "''https://acme.wd5.myworkdayjobs.com/wday/cxs/acme/Ext/jobs''"
  have a: "blank_field (py_get ?r1 ''title'')"
    by (simp add: blank_field_def py_get_def py_strip_def py_isspace_def)
  have b: "\<not> truthy (wd_external_path ?r2)"
    by (simp add: wd_external_path_def py_or_def py_get_def)
  have c: "str_or_empty (py_get ?r2 ''title'') = Inr ''Engineer''"
    by (simp add: str_or_empty_def py_get_def)
  have d: "wd_org_name ?ep ?r2 = Inr ?ep"
    by (simp add: wd_org_name_def py_get_def)
  have e: "str_or_empty (py_or (py_get ?r2 ''locationsText'')
            (py_or (py_get ?r2 ''location'') (JStr []))) = Inr ''New York''"
    by (simp add: str_or_empty_def py_or_def py_get_def)
  show ?thesis
    using a b c d e
      wd_skips_blank_title_or_missing_path [where rec = ?r1 and lib = cpython
        and now = "''2024-05-01T10:00:00+00:00''" and ep = ?ep and rows = "[]"]
      wd_skips_blank_title_or_missing_path [where rec = ?r2 and lib = cpython
        and now = "''2024-05-01T10:00:00+00:00''" and ep = ?ep and rows = "[]"
        and t = "''Engineer''" and org = ?ep and l = "''New York''"]
    by blast
qed



lemma find_key_SomeD: "find_key k rows = Some r \<Longrightarrow> canonical_key r = k \<and> r \<in> set rows"
  by (induction rows) (auto simp: find_key_def split: if_splits)


lemma count_key_absent:
  "find_key k rows = None \<Longrightarrow> filter (\<lambda>r. canonical_key r = k) rows = []"
  by (induction rows) (auto simp: find_key_def split: if_splits)

lemma canonical_key_do_update [simp]:
  "canonical_key (do_update r ls ti de lo po) = canonical_key r"
  by (simp add: do_update_def)

lemma do_update_fields [simp]:
  "last_seen_at (do_update r ls ti de lo po) = ls"
  "title (do_update r ls ti de lo po) = ti"
  "description (do_update r ls ti de lo po) = de"
  "location (do_update r ls ti de lo po) = lo"
  "posted_at (do_update r ls ti de lo po) = (case po of Some p \<Rightarrow> Some p | None \<Rightarrow> posted_at r)"
  "first_seen_at (do_update r ls ti de lo po) = first_seen_at r"
  "org_name (do_update r ls ti de lo po) = org_name r"
  "board_token (do_update r ls ti de lo po) = board_token r"
  "post_url (do_update r ls ti de lo po) = post_url r"
  "row_id (do_update r ls ti de lo po) = row_id r"
  by (simp_all add: do_update_def)









lemma gh_values_SomeD:
  assumes "gh_values lib now token org j = Inr (Some v)"
  shows "bound_not_null v" "v_canonical_key v = Some (fingerprint (gh_url j))"
    "v_first_seen_at v = Some now" "v_last_seen_at v = Some now" "v_org_name v = Some org"
    "v_posted_at v = parse_iso lib (gh_timestamp j)"
    "gh_values lib now' token org j
       = Inr (Some (v\<lparr>v_first_seen_at := Some now', v_last_seen_at := Some now'\<rparr>))"
  using assms
  by (auto simp: gh_values_def gh_url_def bind_res_def bound_not_null_def Let_def
      split: sum.splits if_splits)

subsection \<open>Upserting the same record twice\<close>


lemma execute_upsert_Some [simp]:
  "execute_upsert lib (Inr (Some v)) rows =
     (case sql_upsert v rows of Inl _ \<Rightarrow> (rows, Warned) | Inr rows' \<Rightarrow> (rows', Executed))"
  by (simp add: execute_upsert_def)

lemma py_strip_sample_url: "py_strip sample_url = sample_url"
  by (simp add: py_strip_def py_isspace_def sample_url_def)




lemma sql_bind_None_iff: "sql_bind v = Inr None \<longleftrightarrow> v = JNull"
  by (cases v) (auto simp: sql_bind_def)






lemma wd_urls_sample:
  "base_root cpython wd_endpoint_sample = Inr ''https://acme.wd5.myworkdayjobs.com''"
  "normalize_url cpython (''https://acme.wd5.myworkdayjobs.com'' @ ''/job/NYC/Engineer_R1'')
     = Inr wd_url_sample"
  by code_simp+

lemma wd_values_sample:
  "wd_values cpython now wd_endpoint_sample wd_job_sample
     = Inr (Some \<lparr>v_board_token = Some (''workday:'' @ wd_endpoint_sample),
                  v_org_name = Some wd_endpoint_sample,
                  v_title = Some ''Engineer'', v_description = Some [],
                  v_location = None, v_post_url = Some wd_url_sample,
                  v_posted_at = None, v_first_seen_at = Some now, v_last_seen_at = Some now,
                  v_canonical_key = Some (fingerprint wd_url_sample)\<rparr>)"
proof -
  have g: "py_get wd_job_sample ''title'' = JStr ''Engineer''"
    "py_get wd_job_sample ''externalPath'' = JStr ''/job/NYC/Engineer_R1''"
    "py_get wd_job_sample ''subtitles'' = JNull" "py_get wd_job_sample ''locationsText'' = JNull"
    "py_get wd_job_sample ''location'' = JNull" "py_get wd_job_sample ''postedOn'' = JNull"
    "py_get wd_job_sample ''postedDate'' = JNull" "py_get wd_job_sample ''createdOn'' = JNull"
    by (simp_all add: wd_job_sample_def py_get_def)
  have t: "py_strip ''Engineer'' = ''Engineer''"
    by (simp add: py_strip_def py_isspace_def)
  have ne: "wd_endpoint_sample \<noteq> []" by (simp add: wd_endpoint_sample_def)
  have o: "wd_org_name wd_endpoint_sample wd_job_sample = Inr wd_endpoint_sample"
    by (simp add: wd_org_name_def g ne)
  have e: "wd_external_path wd_job_sample = JStr ''/job/NYC/Engineer_R1''"
    by (simp add: wd_external_path_def g py_or_def)
  have p: "wd_timestamp wd_job_sample = JNull"
    by (simp add: wd_timestamp_def g py_or_def)
  show ?thesis
    by (simp add: wd_values_def g t o e p wd_urls_sample str_or_empty_def py_or_def sql_bind_def
        del: append.simps)
qed



subsection \<open>A null timestamp never clears a stored one\<close>





subsection \<open>What an upsert on an existing row overwrites\<close>






lemma lever_values_posted:
  assumes "lever_values lib now company j = Inr (Some v)"
  shows "lever_posted_at lib j = Inr (v_posted_at v)"
  using assms
  by (auto simp: lever_values_def bind_res_def Let_def split: sum.splits if_splits)

lemma wd_values_posted:
  assumes "wd_values lib now ep rec = Inr (Some v)"
  shows "sql_bind (wd_timestamp rec) = Inr (v_posted_at v)"
  using assms
  by (auto simp: wd_values_def bind_res_def Let_def split: sum.splits if_splits)

lemma gh_posted_from_update:
  assumes u: "py_get j ''updated_at'' = JStr u" "u \<noteq> []"
    and v: "gh_values lib now token org j = Inr (Some v)"
  shows "v_posted_at v = fromisoformat_isoformat lib (replace_Z u)"
proof -
  have "gh_timestamp j = JStr u" using u by (simp add: gh_timestamp_def py_or_def)
  then have "parse_iso lib (gh_timestamp j) = fromisoformat_isoformat lib (replace_Z u)"
    using u(2) by (simp add: parse_iso_def)
  with gh_values_SomeD(6) [OF v] show ?thesis by simp
qed

lemma lever_posted_from_create:
  assumes c: "py_get j ''createdAt'' = JNum c" "c \<noteq> 0"
    and v: "lever_values lib now company j = Inr (Some v)"
  shows "v_posted_at v = fromtimestamp_ms_isoformat lib c \<and> v_posted_at v \<noteq> None"
proof -
  have "lever_timestamp j = JNum c" using c by (simp add: lever_timestamp_def py_or_def)
  then have "lever_posted_at lib j =
      (case fromtimestamp_ms_isoformat lib c of None \<Rightarrow> Inl OverflowError | Some s \<Rightarrow> Inr (Some s))"
    by (simp add: lever_posted_at_def)
  with lever_values_posted [OF v]
  have eq: "(case fromtimestamp_ms_isoformat lib c of None \<Rightarrow> Inl OverflowError
              | Some s \<Rightarrow> Inr (Some s)) = Inr (v_posted_at v)"
    by simp
  show ?thesis
  proof (cases "fromtimestamp_ms_isoformat lib c")
    case None
    with eq show ?thesis by simp
  next
    case (Some s)
    with eq have "v_posted_at v = Some s" by simp
    with Some show ?thesis by simp
  qed
qed

subsection \<open>Which source timestamp becomes posted_at\<close>

text \<open>
  C4. The adapters differ in the timestamp they prefer. The BoardAPI adapter reads
  \<open>updated_at or created_at\<close>: a record with a non-empty \<open>updated_at\<close> gets its
  \<open>posted_at\<close> from it, whatever \<open>created_at\<close> holds. The PostingsAPI adapter reads
  \<open>createdAt or updatedAt\<close>: a record with a non-zero \<open>createdAt\<close> gets its \<open>posted_at\<close>
  from the create-time, whatever \<open>updatedAt\<close> holds. The paginated-search adapter reads
  \<open>postedOn\<close>, else \<open>postedDate\<close>, else \<open>createdOn\<close>, and no update-time.
\<close>

theorem posted_at_source_per_adapter:
  "(py_get j ''updated_at'' = JStr u \<and> u \<noteq> [] \<and> gh_values lib now token org j = Inr (Some v) \<longrightarrow>
      v_posted_at v = fromisoformat_isoformat lib (replace_Z u))
   \<and> (py_get j ''createdAt'' = JNum c \<and> c \<noteq> 0 \<and> lever_values lib now company j = Inr (Some v) \<longrightarrow>
      v_posted_at v = fromtimestamp_ms_isoformat lib c \<and> v_posted_at v \<noteq> None)
   \<and> (wd_values lib now ep j = Inr (Some v) \<longrightarrow>
      sql_bind (py_or (py_get j ''postedOn'') (py_or (py_get j ''postedDate'') (py_get j ''createdOn'')))
        = Inr (v_posted_at v))"
proof -
  have a: "py_get j ''updated_at'' = JStr u \<and> u \<noteq> [] \<and> gh_values lib now token org j = Inr (Some v) \<longrightarrow>
      v_posted_at v = fromisoformat_isoformat lib (replace_Z u)"
    using gh_posted_from_update by blast
  have b: "py_get j ''createdAt'' = JNum c \<and> c \<noteq> 0 \<and> lever_values lib now company j = Inr (Some v) \<longrightarrow>
      v_posted_at v = fromtimestamp_ms_isoformat lib c \<and> v_posted_at v \<noteq> None"
    using lever_posted_from_create by blast
  have c: "wd_values lib now ep j = Inr (Some v) \<longrightarrow>
      sql_bind (py_or (py_get j ''postedOn'') (py_or (py_get j ''postedDate'') (py_get j ''createdOn'')))
        = Inr (v_posted_at v)"
    using wd_values_posted [of lib now ep j v] by (simp add: wd_timestamp_def)
  show ?thesis using a b c by (intro conjI)
qed

lemma epoch_sample_created:
  "epoch_ms_utc 1700000000000 = Some ''2023-11-14T22:13:20+00:00''"
  by code_simp

lemma epoch_sample_updated:
  "epoch_ms_utc 1700086400000 = Some ''2023-11-15T22:13:20+00:00''"
  by code_simp

lemma iso_sample:
  "iso_seconds_utc (replace_Z ''2024-04-30T08:00:00Z'') = Some ''2024-04-30T08:00:00+00:00''"
  by code_simp

lemma lever_values_both:
  "lever_values cpython now company lever_job_both
     = Inr (Some \<lparr>v_board_token = Some (''lever:'' @ company), v_org_name = Some company,
                  v_title = Some ''Data Analyst'', v_description = Some [],
                  v_location = None, v_post_url = Some lever_url_sample,
                  v_posted_at = Some ''2023-11-14T22:13:20+00:00'',
                  v_first_seen_at = Some now, v_last_seen_at = Some now,
                  v_canonical_key = Some (fingerprint lever_url_sample)\<rparr>)"
proof -
  have g: "py_get lever_job_both ''hostedUrl'' = JStr lever_url_sample"
    "py_get lever_job_both ''text'' = JStr ''Data Analyst''"
    "py_get lever_job_both ''applyUrl'' = JNull" "py_get lever_job_both ''title'' = JNull"
    "py_get lever_job_both ''categories'' = JNull"
    "py_get lever_job_both ''workplaceLocations'' = JNull"
    "py_get lever_job_both ''country'' = JNull" "py_get lever_job_both ''location'' = JNull"
    "py_get lever_job_both ''lists'' = JNull" "py_get lever_job_both ''descriptionPlain'' = JNull"
    "py_get lever_job_both ''description'' = JNull"
    "py_get lever_job_both ''createdAt'' = JNum 1700000000000"
    "py_get lever_job_both ''updatedAt'' = JNum 1700086400000"
    by (simp_all add: lever_job_both_def py_get_def)
  have ne: "lever_url_sample \<noteq> []" by (simp add: lever_url_sample_def)
  have s: "py_strip lever_url_sample = lever_url_sample"
    by (simp add: py_strip_def py_isspace_def lever_url_sample_def)
  have t: "py_strip ''Data Analyst'' = ''Data Analyst''"
    by (simp add: py_strip_def py_isspace_def)
  have u: "lever_url_field lever_job_both = JStr lever_url_sample"
    by (simp add: lever_url_field_def py_or_def g ne)
  have c: "lever_cats lever_job_both = JObj []"
    by (simp add: lever_cats_def py_or_def g)
  have o: "lever_org_name company lever_job_both = JStr company"
    by (simp add: lever_org_name_def c py_or_def)
  have l: "lever_loc lever_job_both = Inr JNull"
    by (simp add: lever_loc_def first_location_def g c get_attr_def py_or_def)
  have d: "lever_desc lever_job_both = JStr []"
    by (simp add: lever_desc_def g py_or_def)
  have p: "lever_posted_at cpython lever_job_both = Inr (Some ''2023-11-14T22:13:20+00:00'')"
    by (simp add: lever_posted_at_def lever_timestamp_def g py_or_def cpython_def epoch_sample_created epoch_sample_updated)
  show ?thesis
    by (simp add: lever_values_def u ne s t o l d p g str_or_empty_def py_or_def sql_bind_def)
qed

text \<open>
  The claim as stated, that every adapter prefers the update-time, fails for the
  PostingsAPI adapter: a posting created at 1700000000000 and updated one day later is
  stored with the create-time as its \<open>posted_at\<close>.
\<close>

theorem lever_prefers_create_time_counterexample:
  "py_get lever_job_both ''createdAt'' = JNum 1700000000000
   \<and> py_get lever_job_both ''updatedAt'' = JNum 1700086400000
   \<and> fromtimestamp_ms_isoformat cpython 1700086400000 = Some ''2023-11-15T22:13:20+00:00''
   \<and> snd (lever_upsert_job cpython day1 ''acme'' lever_job_both []) = Executed
   \<and> map posted_at (fst (lever_upsert_job cpython day1 ''acme'' lever_job_both []))
       = [Some ''2023-11-14T22:13:20+00:00'']"
proof -
  have g: "py_get lever_job_both ''createdAt'' = JNum 1700000000000"
    "py_get lever_job_both ''updatedAt'' = JNum 1700086400000"
    by (simp_all add: lever_job_both_def py_get_def)
  have e: "fromtimestamp_ms_isoformat cpython 1700086400000 = Some ''2023-11-15T22:13:20+00:00''"
    by (simp add: cpython_def epoch_sample_created epoch_sample_updated)
  have u: "snd (lever_upsert_job cpython day1 ''acme'' lever_job_both []) = Executed"
    "map posted_at (fst (lever_upsert_job cpython day1 ''acme'' lever_job_both []))
       = [Some ''2023-11-14T22:13:20+00:00'']"
    by (simp_all add: lever_upsert_job_def lever_values_both sql_upsert_def)
  show ?thesis using g e u by (intro conjI)
qed


lemma gh_values_both:
  "gh_values lib now token org gh_job_both
     = Inr (Some \<lparr>v_board_token = Some token, v_org_name = Some org,
                  v_title = Some ''Backend Engineer'', v_description = Some [],
                  v_location = None, v_post_url = Some sample_url,
                  v_posted_at = parse_iso lib (gh_timestamp gh_job_both),
                  v_first_seen_at = Some now, v_last_seen_at = Some now,
                  v_canonical_key = Some (fingerprint sample_url)\<rparr>)"
proof -
  have u: "py_get gh_job_both ''absolute_url'' = JStr sample_url"
    and t: "py_get gh_job_both ''title'' = JStr ''Backend  Engineer''"
    and o: "py_get gh_job_both ''location'' = JNull" "py_get gh_job_both ''content'' = JNull"
    by (simp_all add: gh_job_both_def py_get_def)
  have ne: "sample_url \<noteq> []" by (simp add: sample_url_def)
  have j: "py_join '' '' (py_split ''Backend  Engineer'') = ''Backend Engineer''"
    by (simp add: py_split_def py_isspace_def)
  show ?thesis
    by (simp add: gh_values_def u t o ne j str_or_empty_def dict_or_empty_def py_strip_sample_url
        Let_def)
qed

theorem posted_at_source_per_adapter_witness:
  "py_get gh_job_both ''updated_at'' = JStr ''2024-04-30T08:00:00Z''
   \<and> py_get gh_job_both ''created_at'' = JStr ''2024-04-01T08:00:00Z''
   \<and> (\<exists>v. gh_values cpython day1 ''acme'' ''Acme'' gh_job_both = Inr (Some v)
          \<and> v_posted_at v = Some ''2024-04-30T08:00:00+00:00'')
   \<and> py_get lever_job_both ''createdAt'' = JNum 1700000000000
   \<and> py_get lever_job_both ''updatedAt'' = JNum 1700086400000
   \<and> (\<exists>v. lever_values cpython day1 ''acme'' lever_job_both = Inr (Some v)
          \<and> v_posted_at v = Some ''2023-11-14T22:13:20+00:00'')
   \<and> (\<exists>v. wd_values cpython day1 wd_endpoint_sample wd_job_sample = Inr (Some v)
          \<and> sql_bind (py_or (py_get wd_job_sample ''postedOn'')
                (py_or (py_get wd_job_sample ''postedDate'') (py_get wd_job_sample ''createdOn'')))
              = Inr (v_posted_at v))"
proof -
  let ?gv = "\<lparr>v_board_token = Some ''acme'', v_org_name = Some ''Acme'',
               v_title = Some ''Backend Engineer'', v_description = Some [],
               v_location = None, v_post_url = Some sample_url,
               v_posted_at = parse_iso cpython (gh_timestamp gh_job_both),
               v_first_seen_at = Some day1, v_last_seen_at = Some day1,
               v_canonical_key = Some (fingerprint sample_url)\<rparr>"
  let ?lv = "\<lparr>v_board_token = Some (''lever:'' @ ''acme''), v_org_name = Some ''acme'',
               v_title = Some ''Data Analyst'', v_description = Some [],
               v_location = None, v_post_url = Some lever_url_sample,
               v_posted_at = Some ''2023-11-14T22:13:20+00:00'',
               v_first_seen_at = Some day1, v_last_seen_at = Some day1,
               v_canonical_key = Some (fingerprint lever_url_sample)\<rparr>"
  let ?wv = "\<lparr>v_board_token = Some (''workday:'' @ wd_endpoint_sample),
               v_org_name = Some wd_endpoint_sample,
               v_title = Some ''Engineer'', v_description = Some [],
               v_location = None, v_post_url = Some wd_url_sample,
               v_posted_at = None, v_first_seen_at = Some day1, v_last_seen_at = Some day1,
               v_canonical_key = Some (fingerprint wd_url_sample)\<rparr>"
  have g1: "py_get gh_job_both ''updated_at'' = JStr ''2024-04-30T08:00:00Z''"
    and g2: "py_get gh_job_both ''created_at'' = JStr ''2024-04-01T08:00:00Z''"
    by (simp_all add: gh_job_both_def py_get_def)
  have g3: "''2024-04-30T08:00:00Z'' \<noteq> []" by simp
  have g4: "gh_values cpython day1 ''acme'' ''Acme'' gh_job_both = Inr (Some ?gv)"
    by (rule gh_values_both)
  from posted_at_source_per_adapter [where j = gh_job_both and lib = cpython and now = day1
      and token = "''acme''" and org = "''Acme''" and v = ?gv and u = "''2024-04-30T08:00:00Z''",
      THEN conjunct1, THEN mp, OF conjI [OF g1 conjI [OF g3 g4]]]
  have "v_posted_at ?gv = fromisoformat_isoformat cpython (replace_Z ''2024-04-30T08:00:00Z'')" .
  then have g5: "v_posted_at ?gv = Some ''2024-04-30T08:00:00+00:00''"
    by (simp only: cpython_def pylib.simps iso_sample)
  have l1: "py_get lever_job_both ''createdAt'' = JNum 1700000000000"
    and l2: "py_get lever_job_both ''updatedAt'' = JNum 1700086400000"
    by (simp_all add: lever_job_both_def py_get_def)
  have l3: "(1700000000000::int) \<noteq> 0" by simp
  have l4: "lever_values cpython day1 ''acme'' lever_job_both = Inr (Some ?lv)"
    by (rule lever_values_both)
  from posted_at_source_per_adapter [where j = lever_job_both and lib = cpython and now = day1
      and company = "''acme''" and v = ?lv and c = 1700000000000,
      THEN conjunct2, THEN conjunct1, THEN mp, OF conjI [OF l1 conjI [OF l3 l4]]]
  have l5: "v_posted_at ?lv = Some ''2023-11-14T22:13:20+00:00''" by simp
  have w1: "wd_values cpython day1 wd_endpoint_sample wd_job_sample = Inr (Some ?wv)"
    by (rule wd_values_sample)
  from posted_at_source_per_adapter [where j = wd_job_sample and lib = cpython and now = day1
      and ep = wd_endpoint_sample and v = ?wv,
      THEN conjunct2, THEN conjunct2, THEN mp, OF w1]
  have w2: "sql_bind (py_or (py_get wd_job_sample ''postedOn'')
                (py_or (py_get wd_job_sample ''postedDate'') (py_get wd_job_sample ''createdOn'')))
              = Inr (v_posted_at ?wv)" .
  have a: "\<exists>v. gh_values cpython day1 ''acme'' ''Acme'' gh_job_both = Inr (Some v)
          \<and> v_posted_at v = Some ''2024-04-30T08:00:00+00:00''"
    using g4 g5 by (intro exI [of _ ?gv] conjI)
  have b: "\<exists>v. lever_values cpython day1 ''acme'' lever_job_both = Inr (Some v)
          \<and> v_posted_at v = Some ''2023-11-14T22:13:20+00:00''"
    using l4 l5 by (intro exI [of _ ?lv] conjI)
  have c: "\<exists>v. wd_values cpython day1 wd_endpoint_sample wd_job_sample = Inr (Some v)
          \<and> sql_bind (py_or (py_get wd_job_sample ''postedOn'')
                (py_or (py_get wd_job_sample ''postedDate'') (py_get wd_job_sample ''createdOn'')))
              = Inr (v_posted_at v)"
    using w1 w2 by (intro exI [of _ ?wv] conjI)
  show ?thesis using g1 g2 a l1 l2 b c by (intro conjI)
qed






subsection \<open>Backoff within one logical request\<close>






lemma fetch_loop_pages_le: "snd (fetch_loop post gp s lim n off acc) \<le> n"
  by (induction n arbitrary: off acc) (auto simp: split_beta split: sum.splits)


lemma fetch_loop_result:
  assumes "fetch_loop post gp s lim n off acc = (Inr all, m)"
  shows "all = acc @ concat (map (\<lambda>i. recs_at post gp s lim (off + int i * lim)) [0..<m])
       \<and> (\<forall>i. Suc i < m \<longrightarrow> recs_at post gp s lim (off + int i * lim) \<noteq> []
              \<and> lim \<le> int (length (recs_at post gp s lim (off + int i * lim))))
       \<and> (m < n \<longrightarrow> 0 < m \<and> (recs_at post gp s lim (off + int (m - 1) * lim) = []
              \<or> int (length (recs_at post gp s lim (off + int (m - 1) * lim))) < lim))
       \<and> (\<forall>i<m. \<exists>p. page_posts post gp s lim (off + int i * lim) = Inr p)"
  using assms
proof (induction n arbitrary: off acc all m)
  case 0
  then show ?case by simp
next
  case (Suc n)
  let ?R = "recs_at post gp s lim"
  show ?case
  proof (cases "page_posts post gp s lim off")
    case (Inl e)
    with Suc.prems show ?thesis by simp
  next
    case (Inr p)
    then have R0: "?R off = p" by (simp add: recs_at_def)
    show ?thesis
    proof (cases "p = [] \<or> int (length p) < lim")
      case True
      with Suc.prems Inr have m: "m = 1" and a: "all = acc @ p"
        by (auto split: if_splits)
      show ?thesis using m a R0 True Inr by auto
    next
      case False
      then have pne: "p \<noteq> []" and full: "lim \<le> int (length p)" by auto
      obtain res k where rk: "fetch_loop post gp s lim n (off + lim) (acc @ p) = (res, k)"
        by (cases "fetch_loop post gp s lim n (off + lim) (acc @ p)")
      with Suc.prems Inr False have res: "res = Inr all" and m: "m = Suc k"
        by (auto split: if_splits)
      from rk res have run: "fetch_loop post gp s lim n (off + lim) (acc @ p) = (Inr all, k)"
        by simp
      note IH = Suc.IH [OF run]
      have shift: "off + lim + int i * lim = off + int (Suc i) * lim" for i
        by (simp add: algebra_simps)
      have 1: "all = acc @ concat (map (\<lambda>i. ?R (off + int i * lim)) [0..<m])"
      proof -
        from IH have "all = (acc @ p) @ concat (map (\<lambda>i. ?R (off + lim + int i * lim)) [0..<k])"
          by simp
        also have "\<dots> = acc @ ?R off @ concat (map (\<lambda>i. ?R (off + int (Suc i) * lim)) [0..<k])"
          by (simp only: shift R0 append_assoc)
        also have "\<dots> = acc @ concat (map (\<lambda>i. ?R (off + int i * lim)) [0..<Suc k])"
          by (simp only: map_upt_Suc concat.simps) simp
        finally show ?thesis using m by simp
      qed
      have 2: "\<forall>i. Suc i < m \<longrightarrow> ?R (off + int i * lim) \<noteq> []
              \<and> lim \<le> int (length (?R (off + int i * lim)))"
      proof (intro allI impI)
        fix i assume i: "Suc i < m"
        show "?R (off + int i * lim) \<noteq> [] \<and> lim \<le> int (length (?R (off + int i * lim)))"
        proof (cases i)
          case 0
          then show ?thesis using R0 pne full by simp
        next
          case (Suc j)
          with i m have "Suc j < k" by simp
          with IH have "?R (off + lim + int j * lim) \<noteq> []
              \<and> lim \<le> int (length (?R (off + lim + int j * lim)))" by blast
          then show ?thesis unfolding Suc shift .
        qed
      qed
      have 3: "m < Suc n \<longrightarrow> 0 < m \<and> (?R (off + int (m - 1) * lim) = []
              \<or> int (length (?R (off + int (m - 1) * lim))) < lim)"
      proof
        assume "m < Suc n"
        with m have kn: "k < n" by simp
        with IH have k0: "0 < k" and sh: "?R (off + lim + int (k - 1) * lim) = []
              \<or> int (length (?R (off + lim + int (k - 1) * lim))) < lim" by blast+
        from k0 have "Suc (k - 1) = k" by simp
        with sh have "?R (off + int k * lim) = [] \<or> int (length (?R (off + int k * lim))) < lim"
          unfolding shift by simp
        then show "0 < m \<and> (?R (off + int (m - 1) * lim) = []
              \<or> int (length (?R (off + int (m - 1) * lim))) < lim)"
          using m by simp
      qed
      have 4: "\<forall>i<m. \<exists>p. page_posts post gp s lim (off + int i * lim) = Inr p"
      proof (intro allI impI)
        fix i assume i: "i < m"
        show "\<exists>p. page_posts post gp s lim (off + int i * lim) = Inr p"
        proof (cases i)
          case 0
          then show ?thesis using Inr by simp
        next
          case (Suc j)
          with i m have "j < k" by simp
          with IH have "\<exists>p. page_posts post gp s lim (off + lim + int j * lim) = Inr p" by blast
          then show ?thesis unfolding Suc shift .
        qed
      qed
      show ?thesis using 1 2 3 4 by (intro conjI)
    qed
  qed
qed


lemma page_records_recs_at:
  "page_records post gp s lim k = recs_at post gp s lim (int k * lim)"
  by (simp add: page_records_def recs_at_def)

lemma page_records_fun:
  "page_records post gp s lim = (\<lambda>k. recs_at post gp s lim (int k * lim))"
  by (rule ext) (rule page_records_recs_at)

lemma fetch_loop_two_pages:
  assumes "page_posts post gp s lim 0 = Inr p1" "int (length p1) = lim"
    "page_posts post gp s lim lim = Inr p2" "int (length p2) < lim"
  shows "fetch_loop post gp s lim (Suc (Suc n)) 0 [] = (Inr (p1 @ p2), 2)"
proof -
  have p1: "p1 \<noteq> []" "\<not> int (length p1) < lim" using assms(2,4) by auto
  have second: "fetch_loop post gp s lim (Suc n) lim p1 = (Inr (p1 @ p2), 1)"
    using assms(3,4) by (cases "p2 = []") simp_all
  show ?thesis using assms(1) p1 second by simp
qed

subsection \<open>The paginated fetch\<close>

text \<open>
  C7. \<open>fetch_jobs\<close> fetches at most \<open>max_pages\<close> pages. Where it returns after \<open>m\<close>
  pages, the result is the records of pages \<open>0, ..., m - 1\<close> in order; every page but the
  last one fetched was non-empty and held at least \<open>page_limit\<close> records, so the loop
  stops at the first page that is empty or holds fewer; and where it stopped before
  \<open>max_pages\<close>, the last page was such a page. In particular, with room for two pages, a
  first page of exactly \<open>page_limit\<close> records and a second page of fewer give exactly two
  page fetches and the two pages joined.
\<close>

theorem fetch_jobs_pagination:
  "snd (fetch_jobs post gp s lim max_pages) \<le> nat max_pages
   \<and> (fetch_jobs post gp s lim max_pages = (Inr all, m) \<longrightarrow>
        all = concat (map (page_records post gp s lim) [0..<m])
        \<and> (\<forall>k. Suc k < m \<longrightarrow> page_records post gp s lim k \<noteq> []
               \<and> lim \<le> int (length (page_records post gp s lim k)))
        \<and> (m < nat max_pages \<longrightarrow> 0 < m
               \<and> (page_records post gp s lim (m - 1) = []
                    \<or> int (length (page_records post gp s lim (m - 1))) < lim)))
   \<and> (2 \<le> max_pages \<and> page_posts post gp s lim 0 = Inr p1 \<and> int (length p1) = lim
        \<and> page_posts post gp s lim lim = Inr p2 \<and> int (length p2) < lim \<longrightarrow>
        fetch_jobs post gp s lim max_pages = (Inr (p1 @ p2), 2))"
proof -
  have a: "snd (fetch_jobs post gp s lim max_pages) \<le> nat max_pages"
    by (simp add: fetch_jobs_def fetch_loop_pages_le)
  have b: "fetch_jobs post gp s lim max_pages = (Inr all, m) \<longrightarrow>
        all = concat (map (page_records post gp s lim) [0..<m])
        \<and> (\<forall>k. Suc k < m \<longrightarrow> page_records post gp s lim k \<noteq> []
               \<and> lim \<le> int (length (page_records post gp s lim k)))
        \<and> (m < nat max_pages \<longrightarrow> 0 < m
               \<and> (page_records post gp s lim (m - 1) = []
                    \<or> int (length (page_records post gp s lim (m - 1))) < lim))"
  proof
    assume "fetch_jobs post gp s lim max_pages = (Inr all, m)"
    then have "fetch_loop post gp s lim (nat max_pages) 0 [] = (Inr all, m)"
      by (simp add: fetch_jobs_def)
    from fetch_loop_result [OF this]
    show "all = concat (map (page_records post gp s lim) [0..<m])
        \<and> (\<forall>k. Suc k < m \<longrightarrow> page_records post gp s lim k \<noteq> []
               \<and> lim \<le> int (length (page_records post gp s lim k)))
        \<and> (m < nat max_pages \<longrightarrow> 0 < m
               \<and> (page_records post gp s lim (m - 1) = []
                    \<or> int (length (page_records post gp s lim (m - 1))) < lim))"
      by (simp add: page_records_fun)
  qed
  have c: "2 \<le> max_pages \<and> page_posts post gp s lim 0 = Inr p1 \<and> int (length p1) = lim
        \<and> page_posts post gp s lim lim = Inr p2 \<and> int (length p2) < lim \<longrightarrow>
        fetch_jobs post gp s lim max_pages = (Inr (p1 @ p2), 2)"
  proof (intro impI, elim conjE)
    assume mp: "2 \<le> max_pages" and h: "page_posts post gp s lim 0 = Inr p1"
      "int (length p1) = lim" "page_posts post gp s lim lim = Inr p2" "int (length p2) < lim"
    obtain n where n: "nat max_pages = Suc (Suc n)"
    proof -
      from mp have "nat max_pages = Suc (Suc (nat max_pages - 2))" by simp
      then show ?thesis by (rule that)
    qed
    show "fetch_jobs post gp s lim max_pages = (Inr (p1 @ p2), 2)"
      unfolding fetch_jobs_def n by (rule fetch_loop_two_pages [OF h])
  qed
  show ?thesis using a b c by (intro conjI)
qed


lemma three_postings_pages:
  "page_posts three_postings no_get [] 2 0
     = Inr [JObj [(''title'', JStr ''A'')], JObj [(''title'', JStr ''B'')]]"
  "page_posts three_postings no_get [] 2 2 = Inr [JObj [(''title'', JStr ''C'')]]"
  by (simp_all add: page_posts_def fetch_page_def three_postings_def extract_posts_def
      py_get_def py_or_def py_iter_def Let_def)

theorem fetch_jobs_pagination_witness:
  "(2::int) \<le> 40
   \<and> page_posts three_postings no_get [] 2 0
       = Inr [JObj [(''title'', JStr ''A'')], JObj [(''title'', JStr ''B'')]]
   \<and> int (length [JObj [(''title'', JStr ''A'')], JObj [(''title'', JStr ''B'')]]) = 2
   \<and> page_posts three_postings no_get [] 2 2 = Inr [JObj [(''title'', JStr ''C'')]]
   \<and> int (length [JObj [(''title'', JStr ''C'')]]) < 2
   \<and> fetch_jobs three_postings no_get [] 2 40
       = (Inr [JObj [(''title'', JStr ''A'')], JObj [(''title'', JStr ''B'')],
               JObj [(''title'', JStr ''C'')]], 2)
   \<and> snd (fetch_jobs three_postings no_get [] 2 40) \<le> nat 40"
proof -
  let ?p1 = "[JObj [(''title'', JStr ''A'')], JObj [(''title'', JStr ''B'')]]"
  let ?p2 = "[JObj [(''title'', JStr ''C'')]]"
  have m: "(2::int) \<le> 40" by simp
  have l1: "int (length ?p1) = 2" and l2: "int (length ?p2) < 2" by simp_all
  note T = fetch_jobs_pagination [where post = three_postings and gp = no_get and s = "[]"
      and lim = 2 and max_pages = 40 and ?p1.0 = ?p1 and ?p2.0 = ?p2]
  from T [THEN conjunct2, THEN conjunct2, THEN mp,
      OF conjI [OF m conjI [OF three_postings_pages(1) conjI [OF l1
        conjI [OF three_postings_pages(2) l2]]]]]
  have r: "fetch_jobs three_postings no_get [] 2 40 = (Inr (?p1 @ ?p2), 2)" .
  from T [THEN conjunct1]
  have b: "snd (fetch_jobs three_postings no_get [] 2 40) \<le> nat 40" .
  from r have r': "fetch_jobs three_postings no_get [] 2 40
       = (Inr [JObj [(''title'', JStr ''A'')], JObj [(''title'', JStr ''B'')],
               JObj [(''title'', JStr ''C'')]], 2)" by simp
  show ?thesis using m three_postings_pages l1 l2 r' b by (intro conjI)
qed


subsection \<open>The normalizer on the posting of the specification\<close>

lemma senior_remote_fields:
  "normalize_fields ''Senior Backend Engineer'' [] (Some ''Remote - USA'')
     = \<lparr>role_level = Some ''senior'', work_type = Some ''remote'', employment_type = None,
        city = Some ''Remote'', state = None, country = None, remote = Some 1\<rparr>"
  by code_simp

text \<open>
  C9. The normalizer applied to the title \<open>Senior Backend Engineer\<close>, an empty
  description and the location \<open>Remote - USA\<close> gives \<open>role_level = senior\<close> and
  \<open>work_type = remote\<close>.
\<close>

theorem senior_remote_example:
  "role_level (normalize_fields ''Senior Backend Engineer'' [] (Some ''Remote - USA'')) = Some ''senior''
   \<and> work_type (normalize_fields ''Senior Backend Engineer'' [] (Some ''Remote - USA'')) = Some ''remote''"
  by (simp add: senior_remote_fields)


end
